theory Spec2Isabelle
  imports Main "HOL-Library.Char_ord" "HOL-Library.List_Lexorder"
begin

section \<open>The environment of one request\<close>

text \<open>
  Identifiers are UUIDs; the model keeps their canonical text (what \<open>String()\<close> prints).
  Every call of the engine runs at one instant of a millisecond clock, draws the
  identifiers that \<open>uuid.New()\<close> returns from its environment, and may meet failing
  I/O: \<open>fails\<close> lists the call sites whose backing store (PostgreSQL, Redis, RabbitMQ)
  returns an infrastructure error during this request.
\<close>

type_synonym uuid = string

datatype iostep =
    RlRead | RlUpdate | BurstIncr | BurstExpire
  | DbHasVoted | DbGetPoll | DbGetOptions | DbGetTags | DbDailyCount | DbInsertVote
  | DbHasSkipped | DbInsertSkip | DbGetVote | DbVerifyOption | DbUpdateVote
  | DbDeleteVote | DbPollStats
  | CacheGetPoll | CacheSetPoll | CacheGetStats | CacheSetStats | CacheDelStats
  | Publish

record env =
  now_ms :: int
  fails :: "iostep list"
  svc_id :: uuid
  row_id :: uuid

definition failing :: "env \<Rightarrow> iostep \<Rightarrow> bool" where
  "failing e st = (st \<in> set (fails e))"

section \<open>The counter store\<close>

text \<open>
  A Redis string is modelled by what \<open>INCR\<close> and \<open>strconv\<close> read from it: a decimal
  64-bit integer (\<open>RInt\<close>) or anything else (\<open>RBad\<close>). An entry carries its expiry
  deadline in milliseconds, if it has one; an entry past its deadline is gone.
\<close>

datatype rval = RInt int | RBad

type_synonym entry = "rval \<times> int option"

type_synonym redis = "string \<Rightarrow> entry option"

definition live :: "int \<Rightarrow> entry \<Rightarrow> bool" where
  "live t e = (case snd e of None \<Rightarrow> True | Some d \<Rightarrow> t < d)"

definition redis_get :: "redis \<Rightarrow> int \<Rightarrow> string \<Rightarrow> rval option" where
  "redis_get r t k =
     (case r k of None \<Rightarrow> None
      | Some e \<Rightarrow> if live t e then Some (fst e) else None)"

definition redis_ttl :: "redis \<Rightarrow> int \<Rightarrow> string \<Rightarrow> int option" where
  "redis_ttl r t k =
     (case r k of None \<Rightarrow> None
      | Some e \<Rightarrow> if live t e then snd e else None)"

text \<open>\<open>INCR\<close>: a missing key counts from 0 and gets no expiry; a live key keeps its
  expiry; a value that is not an integer, or the largest 64-bit integer, is an error.\<close>

definition redis_incr :: "redis \<Rightarrow> int \<Rightarrow> string \<Rightarrow> (redis \<times> int) option" where
  "redis_incr r t k =
     (case redis_get r t k of
        None \<Rightarrow> Some (r(k \<mapsto> (RInt 1, None)), 1)
      | Some RBad \<Rightarrow> None
      | Some (RInt n) \<Rightarrow>
          if n \<ge> 2 ^ 63 - 1 then None
          else Some (r(k \<mapsto> (RInt (n + 1), redis_ttl r t k)), n + 1))"

definition redis_set :: "redis \<Rightarrow> int \<Rightarrow> string \<Rightarrow> rval \<Rightarrow> int \<Rightarrow> redis" where
  "redis_set r t k v ttl = r(k \<mapsto> (v, Some (t + ttl)))"

definition redis_expire :: "redis \<Rightarrow> int \<Rightarrow> string \<Rightarrow> int \<Rightarrow> redis" where
  "redis_expire r t k ttl =
     (case redis_get r t k of
        None \<Rightarrow> r
      | Some v \<Rightarrow> r(k \<mapsto> (v, Some (t + ttl))))"

section \<open>Admission control (package api, the rate limiter)\<close>

definition DefaultRateLimit :: int where "DefaultRateLimit = 1000"

definition DefaultRateWindow :: int where "DefaultRateWindow = 60"

definition DefaultBurstLimit :: int where "DefaultBurstLimit = 500"

definition DefaultCleanupWindow :: int where "DefaultCleanupWindow = 3600"

datatype http_method = GET | POST | PUT | DELETE

text \<open>The dynamic value gin keeps under \<open>"user_id"\<close>: a string, a UUID, or a value
  of another type.\<close>

datatype ctx_value = CtxString string | CtxUUID uuid | CtxOther

record request =
  path :: string
  req_method :: http_method
  ctx_user_id :: "ctx_value option"
  query_userId :: string

text \<open>What a middleware does with the request: hand it on (\<open>c.Next()\<close>) or answer
  with a status and a JSON body (\<open>c.JSON\<close>, \<open>c.Abort()\<close>). The response headers it
  set are kept beside it; \<open>strconv\<close> prints their values from integers.\<close>

datatype verdict = Next | Abort nat "(string \<times> string) list"

record reply =
  verdict :: verdict
  headers :: "(string \<times> int) list"

definition HasPrefix :: "string \<Rightarrow> string \<Rightarrow> bool" where
  "HasPrefix s p = (length p \<le> length s \<and> take (length p) s = p)"

definition HasSuffix :: "string \<Rightarrow> string \<Rightarrow> bool" where
  "HasSuffix s p = (length p \<le> length s \<and> drop (length s - length p) s = p)"

definition exempt :: "string \<Rightarrow> bool" where
  "exempt p = (HasPrefix p ''/api/polls/'' \<and> HasSuffix p ''/stats'')"

definition pass :: reply where
  "pass = \<lparr>verdict = Next, headers = []\<rparr>"

definition abort :: "nat \<Rightarrow> string \<Rightarrow> reply" where
  "abort code msg =
     \<lparr>verdict = Abort code [(''status'', ''error''), (''message'', msg)], headers = []\<rparr>"

text \<open>
  Both middlewares resolve the caller the same way (the source repeats the code): the
  authenticated identity if there is one; else, for GET, the \<open>userId\<close> query parameter;
  for POST the request is handed on unchecked; an empty string is refused with 401, and
  a value that is neither a string nor a UUID (or no value at all) with 400.
\<close>

datatype caller = Unchecked | Refused reply | Caller string

definition resolve_caller :: "request \<Rightarrow> caller" where
  "resolve_caller req =
     (case ctx_user_id req of
        None \<Rightarrow>
          (case req_method req of
             GET \<Rightarrow>
               if query_userId req = [] then Refused (abort 401 ''User ID is required'')
               else Caller (query_userId req)
           | POST \<Rightarrow> Unchecked
           | _ \<Rightarrow> Refused (abort 400 ''Invalid user ID type''))
      | Some (CtxString v) \<Rightarrow>
          if v = [] then Refused (abort 401 ''User ID is required'') else Caller v
      | Some (CtxUUID v) \<Rightarrow> Caller v
      | Some CtxOther \<Rightarrow> Refused (abort 400 ''Invalid user ID type''))"

definition rate_key :: "string \<Rightarrow> string \<Rightarrow> string" where
  "rate_key uid p = ''rate_limit:'' @ uid @ '':'' @ p"

definition count_key :: "string \<Rightarrow> string \<Rightarrow> string" where
  "count_key uid p = rate_key uid p @ '':count''"

definition window_key :: "string \<Rightarrow> string \<Rightarrow> string" where
  "window_key uid p = rate_key uid p @ '':window''"

definition burst_key :: "string \<Rightarrow> string \<Rightarrow> string" where
  "burst_key uid p = ''burst_limit:'' @ uid @ '':'' @ p"

text \<open>\<open>strconv.Atoi\<close> and \<open>strconv.ParseInt\<close> return 0 beside their error.\<close>

definition atoi :: "rval \<Rightarrow> int" where
  "atoi v = (case v of RInt n \<Rightarrow> n | RBad \<Rightarrow> 0)"

text \<open>The count and the window start as the limiter reads them: a missing key leaves
  the defaults, 0 and now.\<close>

definition read_count :: "redis \<Rightarrow> int \<Rightarrow> string \<Rightarrow> string \<Rightarrow> int" where
  "read_count r t uid p =
     (case redis_get r t (count_key uid p) of None \<Rightarrow> 0 | Some v \<Rightarrow> atoi v)"

definition read_window :: "redis \<Rightarrow> int \<Rightarrow> string \<Rightarrow> string \<Rightarrow> int" where
  "read_window r t uid p =
     (case redis_get r t (window_key uid p) of None \<Rightarrow> t div 1000 | Some v \<Rightarrow> atoi v)"

text \<open>The second pipeline: \<open>INCR\<close> of the count, \<open>SET\<close> of the window start with the
  cleanup expiry. A command that fails by itself does not stop the other.\<close>

definition rate_update :: "redis \<Rightarrow> int \<Rightarrow> string \<Rightarrow> string \<Rightarrow> int \<Rightarrow> redis" where
  "rate_update r t uid p window =
     (let r1 = (case redis_incr r t (count_key uid p) of None \<Rightarrow> r | Some (r', _) \<Rightarrow> r')
      in redis_set r1 t (window_key uid p) (RInt window) (DefaultCleanupWindow * 1000))"

definition rate_headers :: "int \<Rightarrow> int \<Rightarrow> (string \<times> int) list" where
  "rate_headers count window =
     [(''X-RateLimit-Limit'', DefaultRateLimit),
      (''X-RateLimit-Remaining'', DefaultRateLimit - count - 1),
      (''X-RateLimit-Reset'', window + DefaultRateWindow)]"

definition RateLimit :: "env \<Rightarrow> request \<Rightarrow> redis \<Rightarrow> reply \<times> redis" where
  "RateLimit e req r =
     (if exempt (path req) then (pass, r)
      else case resolve_caller req of
        Unchecked \<Rightarrow> (pass, r)
      | Refused rep \<Rightarrow> (rep, r)
      | Caller uid \<Rightarrow>
          if failing e RlRead then (abort 500 ''Rate limit check failed'', r)
          else
            let now = now_ms e div 1000;
                count0 = read_count r (now_ms e) uid (path req);
                window0 = read_window r (now_ms e) uid (path req);
                expired = (now - window0 \<ge> DefaultRateWindow);
                count = (if expired then 0 else count0);
                window = (if expired then now else window0)
            in if count \<ge> DefaultRateLimit then (abort 429 ''Rate limit exceeded'', r)
               else
                 (\<lparr>verdict = Next, headers = rate_headers count window\<rparr>,
                  if failing e RlUpdate then r
                  else rate_update r (now_ms e) uid (path req) window))"

definition burst_headers :: "int \<Rightarrow> (string \<times> int) list" where
  "burst_headers count =
     [(''X-BurstLimit-Limit'', DefaultBurstLimit),
      (''X-BurstLimit-Remaining'', DefaultBurstLimit - count)]"

definition BurstLimit :: "env \<Rightarrow> request \<Rightarrow> redis \<Rightarrow> reply \<times> redis" where
  "BurstLimit e req r =
     (if exempt (path req) then (pass, r)
      else case resolve_caller req of
        Unchecked \<Rightarrow> (pass, r)
      | Refused rep \<Rightarrow> (rep, r)
      | Caller uid \<Rightarrow>
          if failing e BurstIncr then (abort 500 ''Burst limit check failed'', r)
          else
            (case redis_incr r (now_ms e) (burst_key uid (path req)) of
               None \<Rightarrow> (abort 500 ''Burst limit check failed'', r)
             | Some (r1, count) \<Rightarrow>
                 let r2 = (if count = 1 \<and> \<not> failing e BurstExpire
                           then redis_expire r1 (now_ms e) (burst_key uid (path req)) 1000
                           else r1)
                 in if count > DefaultBurstLimit
                    then (abort 429 ''Burst limit exceeded'', r2)
                    else (\<lparr>verdict = Next, headers = burst_headers count\<rparr>, r2)))"

text \<open>A sequence of requests of one caller on one route, each at its own instant.\<close>

fun burst_run :: "env list \<Rightarrow> request \<Rightarrow> redis \<Rightarrow> reply list \<times> redis" where
  "burst_run [] req r = ([], r)"
| "burst_run (e # es) req r =
     (let (rep, r1) = BurstLimit e req r;
          (reps, r2) = burst_run es req r1
      in (rep # reps, r2))"

fun rate_run :: "env list \<Rightarrow> request \<Rightarrow> redis \<Rightarrow> reply list \<times> redis" where
  "rate_run [] req r = ([], r)"
| "rate_run (e # es) req r =
     (let (rep, r1) = RateLimit e req r;
          (reps, r2) = rate_run es req r1
      in (rep # reps, r2))"

section \<open>The domain (package domain)\<close>

text \<open>
  The sentinel errors the engine returns. \<open>ErrStore\<close> stands for an error of a backing
  store wrapped by \<open>fmt.Errorf\<close> with the given prefix: \<open>errors.Is\<close> matches it with none
  of the sentinels, and the handlers answer it with 500. The structs follow; the fields
  of a HOL record share one name space, so each struct's fields carry a prefix. Times
  are milliseconds.
\<close>

datatype error =
    ErrNotFound | ErrInvalidInput | ErrAlreadyVoted | ErrAlreadySkipped | ErrInvalidOption
  | ErrDailyVoteLimitExceeded | ErrUnauthorized
  | ErrStore string

definition MaxDailyVotes :: int where "MaxDailyVotes = 100"

record PollOption =
  o_ID :: uuid
  o_PollID :: uuid
  o_OptionText :: string
  o_OptionIndex :: int
  o_CreatedAt :: int

record Poll =
  p_ID :: uuid
  p_Title :: string
  p_Options :: "PollOption list"
  p_Tags :: "string list"
  p_CreatedAt :: int
  p_UpdatedAt :: int

record Vote =
  v_ID :: uuid
  v_PollID :: uuid
  v_UserID :: uuid
  v_OptionID :: uuid
  v_CreatedAt :: int

record Skip =
  s_ID :: uuid
  s_PollID :: uuid
  s_UserID :: uuid
  s_CreatedAt :: int

record OptionStats =
  os_Option :: string
  os_Count :: int

record PollStats =
  st_PollID :: uuid
  st_Votes :: "OptionStats list"

record VoteRequest =
  UserID :: uuid
  OptionIndex :: int

record UpdateVoteRequest =
  u_UserID :: uuid
  u_OptionIndex :: int

record SkipRequest =
  k_UserID :: uuid

datatype event =
    PollVoted Vote | PollSkipped Skip | PollVoteDeleted Vote | PollVoteUpdated Vote

section \<open>The stores\<close>

text \<open>
  The tables of \<open>migrations/000001_init_schema.sql\<close> that the engine touches, as lists
  of rows in insertion order (\<open>user_daily_votes\<close> as a map from its unique key, user and
  date, to the count; of \<open>users\<close> only the primary key matters); the read cache, each
  entry with its expiry deadline (an entry is the value its JSON text decodes to); the
  limiters' counters; and the facts published so far.
\<close>

record poll_row =
  pr_id :: uuid
  pr_title :: string
  pr_created_at :: int
  pr_updated_at :: int

record option_row =
  or_id :: uuid
  or_poll_id :: uuid
  or_option_text :: string
  or_option_index :: int
  or_created_at :: int

record state =
  users :: "uuid list"
  polls :: "poll_row list"
  poll_options :: "option_row list"
  poll_tags :: "(uuid \<times> string) list"
  votes :: "Vote list"
  skips :: "Skip list"
  user_daily_votes :: "uuid \<times> int \<Rightarrow> int option"
  poll_cache :: "uuid \<Rightarrow> (Poll \<times> int) option"
  stats_cache :: "uuid \<Rightarrow> (PollStats \<times> int) option"
  counters :: redis
  published :: "event list"

section \<open>The repository (package postgres)\<close>

definition GetCachedPoll :: "env \<Rightarrow> state \<Rightarrow> uuid \<Rightarrow> error + Poll" where
  "GetCachedPoll e s pid =
     (if failing e CacheGetPoll then Inl (ErrStore ''get cached poll'')
      else case poll_cache s pid of
        None \<Rightarrow> Inl ErrNotFound
      | Some (poll, deadline) \<Rightarrow> if now_ms e < deadline then Inr poll else Inl ErrNotFound)"

definition SetCachedPoll :: "env \<Rightarrow> state \<Rightarrow> Poll \<Rightarrow> (error + unit) \<times> state" where
  "SetCachedPoll e s poll =
     (if failing e CacheSetPoll then (Inl (ErrStore ''cache poll''), s)
      else (Inr (),
            s\<lparr>poll_cache := (poll_cache s)(p_ID poll \<mapsto> (poll, now_ms e + 86400000))\<rparr>))"

text \<open>The options of a poll as \<open>GetPollByID\<close> scans them: ordered by creation time
  (rows created at the same time stay in insertion order), the option index not
  selected and so left 0. The tags come ordered as byte strings.\<close>

definition options_of :: "state \<Rightarrow> uuid \<Rightarrow> PollOption list" where
  "options_of s pid =
     map (\<lambda>r. \<lparr>o_ID = or_id r, o_PollID = pid, o_OptionText = or_option_text r,
               o_OptionIndex = 0, o_CreatedAt = or_created_at r\<rparr>)
       (sort_key or_created_at (filter (\<lambda>r. or_poll_id r = pid) (poll_options s)))"

definition tags_of :: "state \<Rightarrow> uuid \<Rightarrow> string list" where
  "tags_of s pid = sort (map snd (filter (\<lambda>pt. fst pt = pid) (poll_tags s)))"

definition GetPollByID :: "env \<Rightarrow> state \<Rightarrow> uuid \<Rightarrow> (error + Poll) \<times> state" where
  "GetPollByID e s pid =
     (case GetCachedPoll e s pid of
        Inr poll \<Rightarrow> (Inr poll, s)
      | Inl _ \<Rightarrow>
          if failing e DbGetPoll then (Inl (ErrStore ''get poll''), s)
          else
            (case find (\<lambda>r. pr_id r = pid) (polls s) of
               None \<Rightarrow> (Inl ErrNotFound, s)
             | Some row \<Rightarrow>
                 if failing e DbGetOptions then (Inl (ErrStore ''get options''), s)
                 else if failing e DbGetTags then (Inl (ErrStore ''get tags''), s)
                 else
                   let poll = \<lparr>p_ID = pr_id row, p_Title = pr_title row,
                               p_Options = options_of s pid, p_Tags = tags_of s pid,
                               p_CreatedAt = pr_created_at row,
                               p_UpdatedAt = pr_updated_at row\<rparr>
                   in (Inr poll, snd (SetCachedPoll e s poll))))"

text \<open>The statistics query: the poll's options left-joined with their votes, grouped
  by option text and creation time, ordered by creation time.\<close>

definition stats_rows :: "state \<Rightarrow> uuid \<Rightarrow> OptionStats list" where
  "stats_rows s pid =
     (let opts = sort_key or_created_at (filter (\<lambda>r. or_poll_id r = pid) (poll_options s));
          key = (\<lambda>r. (or_option_text r, or_created_at r))
      in map (\<lambda>g. \<lparr>os_Option = fst g,
                    os_Count = int (length [v. v \<leftarrow> votes s, r \<leftarrow> opts,
                                              key r = g \<and> v_OptionID v = or_id r])\<rparr>)
           (remdups (map key opts)))"

definition GetPollStats_repo :: "env \<Rightarrow> state \<Rightarrow> uuid \<Rightarrow> error + PollStats" where
  "GetPollStats_repo e s pid =
     (if failing e DbPollStats then Inl (ErrStore ''get poll stats'')
      else Inr \<lparr>st_PollID = pid, st_Votes = stats_rows s pid\<rparr>)"

text \<open>
  An \<open>INSERT\<close> into \<open>votes\<close>: the primary key and \<open>UNIQUE(poll_id, user_id)\<close> are
  checked as the row goes in (SQLSTATE 23505, which the repository turns into
  \<open>ErrAlreadyVoted\<close>), the foreign keys at the end of the statement (23503, wrapped as
  it is). After the insert the repository re-reads the poll and caches it again.
\<close>

definition CreateVote ::
  "env \<Rightarrow> state \<Rightarrow> uuid \<Rightarrow> uuid \<Rightarrow> uuid \<Rightarrow> (error + unit) \<times> state" where
  "CreateVote e s pollID userID optionID =
     (if failing e DbInsertVote then (Inl (ErrStore ''create vote''), s)
      else if row_id e \<in> set (map v_ID (votes s))
              \<or> (pollID, userID) \<in> set (map (\<lambda>v. (v_PollID v, v_UserID v)) (votes s))
      then (Inl ErrAlreadyVoted, s)
      else if pollID \<notin> set (map pr_id (polls s)) \<or> userID \<notin> set (users s)
              \<or> optionID \<notin> set (map or_id (poll_options s))
      then (Inl (ErrStore ''create vote''), s)
      else
        let s1 = s\<lparr>votes := votes s @
                     [\<lparr>v_ID = row_id e, v_PollID = pollID, v_UserID = userID,
                       v_OptionID = optionID, v_CreatedAt = now_ms e\<rparr>]\<rparr>
        in (case GetPollByID e s1 pollID of
              (Inr poll, s2) \<Rightarrow> (Inr (), snd (SetCachedPoll e s2 poll))
            | (Inl _, s2) \<Rightarrow> (Inr (), s2)))"

definition HasVoted :: "env \<Rightarrow> state \<Rightarrow> uuid \<Rightarrow> uuid \<Rightarrow> error + bool" where
  "HasVoted e s pollID userID =
     (if failing e DbHasVoted then Inl (ErrStore ''check vote'')
      else Inr ((pollID, userID) \<in> set (map (\<lambda>v. (v_PollID v, v_UserID v)) (votes s))))"

definition GetUserDailyVoteCount :: "env \<Rightarrow> state \<Rightarrow> uuid \<Rightarrow> int \<Rightarrow> error + int" where
  "GetUserDailyVoteCount e s userID date =
     (if failing e DbDailyCount then Inl (ErrStore ''get daily vote count'')
      else case user_daily_votes s (userID, date) of None \<Rightarrow> Inr 0 | Some c \<Rightarrow> Inr c)"

definition CreateSkip :: "env \<Rightarrow> state \<Rightarrow> uuid \<Rightarrow> uuid \<Rightarrow> (error + unit) \<times> state" where
  "CreateSkip e s pollID userID =
     (if failing e DbInsertSkip then (Inl (ErrStore ''create skip''), s)
      else if row_id e \<in> set (map s_ID (skips s))
              \<or> (pollID, userID) \<in> set (map (\<lambda>k. (s_PollID k, s_UserID k)) (skips s))
      then (Inl ErrAlreadySkipped, s)
      else if pollID \<notin> set (map pr_id (polls s)) \<or> userID \<notin> set (users s)
      then (Inl (ErrStore ''create skip''), s)
      else (Inr (),
            s\<lparr>skips := skips s @
                 [\<lparr>s_ID = row_id e, s_PollID = pollID, s_UserID = userID,
                   s_CreatedAt = now_ms e\<rparr>]\<rparr>))"

definition HasSkipped :: "env \<Rightarrow> state \<Rightarrow> uuid \<Rightarrow> uuid \<Rightarrow> error + bool" where
  "HasSkipped e s pollID userID =
     (if failing e DbHasSkipped then Inl (ErrStore ''check skip'')
      else Inr ((pollID, userID) \<in> set (map (\<lambda>k. (s_PollID k, s_UserID k)) (skips s))))"

definition GetCachedPollStats :: "env \<Rightarrow> state \<Rightarrow> uuid \<Rightarrow> error + PollStats" where
  "GetCachedPollStats e s pid =
     (if failing e CacheGetStats then Inl (ErrStore ''get cached stats'')
      else case stats_cache s pid of
        None \<Rightarrow> Inl ErrNotFound
      | Some (stats, deadline) \<Rightarrow> if now_ms e < deadline then Inr stats else Inl ErrNotFound)"

definition SetCachedPollStats ::
  "env \<Rightarrow> state \<Rightarrow> uuid \<Rightarrow> PollStats \<Rightarrow> (error + unit) \<times> state" where
  "SetCachedPollStats e s pid stats =
     (if failing e CacheSetStats then (Inl (ErrStore ''cache stats''), s)
      else (Inr (), s\<lparr>stats_cache := (stats_cache s)(pid \<mapsto> (stats, now_ms e + 300000))\<rparr>))"

definition InvalidatePollStatsCache :: "env \<Rightarrow> state \<Rightarrow> uuid \<Rightarrow> (error + unit) \<times> state" where
  "InvalidatePollStatsCache e s pid =
     (if failing e CacheDelStats then (Inl (ErrStore ''invalidate cache''), s)
      else (Inr (), s\<lparr>stats_cache := (stats_cache s)(pid := None)\<rparr>))"

definition GetVoteByID :: "env \<Rightarrow> state \<Rightarrow> uuid \<Rightarrow> error + Vote" where
  "GetVoteByID e s voteID =
     (if failing e DbGetVote then Inl (ErrStore ''get vote by id'')
      else case find (\<lambda>v. v_ID v = voteID) (votes s) of
        None \<Rightarrow> Inl ErrNotFound
      | Some v \<Rightarrow> Inr v)"

definition UpdateVote_repo ::
  "env \<Rightarrow> state \<Rightarrow> uuid \<Rightarrow> uuid \<Rightarrow> uuid \<Rightarrow> (error + unit) \<times> state" where
  "UpdateVote_repo e s voteID userID optionID =
     (case GetVoteByID e s voteID of
        Inl err \<Rightarrow> (Inl err, s)
      | Inr vote \<Rightarrow>
          if v_UserID vote \<noteq> userID then (Inl ErrUnauthorized, s)
          else if failing e DbVerifyOption then (Inl (ErrStore ''verify option''), s)
          else if (optionID, v_PollID vote)
                    \<notin> set (map (\<lambda>r. (or_id r, or_poll_id r)) (poll_options s))
          then (Inl ErrInvalidOption, s)
          else if failing e DbUpdateVote then (Inl (ErrStore ''update vote''), s)
          else
            let hit = (\<lambda>v. v_ID v = voteID \<and> v_UserID v = userID);
                s1 = s\<lparr>votes := map (\<lambda>v. if hit v then v\<lparr>v_OptionID := optionID\<rparr> else v)
                                    (votes s)\<rparr>
            in if filter hit (votes s) = [] then (Inl ErrNotFound, s1)
               else (Inr (), snd (InvalidatePollStatsCache e s1 (v_PollID vote))))"

definition DeleteVote_repo :: "env \<Rightarrow> state \<Rightarrow> uuid \<Rightarrow> uuid \<Rightarrow> (error + unit) \<times> state" where
  "DeleteVote_repo e s voteID userID =
     (if failing e DbDeleteVote then (Inl (ErrStore ''delete vote''), s)
      else
        let hit = (\<lambda>v. v_ID v = voteID \<and> v_UserID v = userID)
        in if filter hit (votes s) = [] then (Inl ErrUnauthorized, s)
           else (Inr (), s\<lparr>votes := filter (\<lambda>v. \<not> hit v) (votes s)\<rparr>))"

section \<open>The change notifier (package events)\<close>

definition publishEvent :: "env \<Rightarrow> state \<Rightarrow> event \<Rightarrow> (error + unit) \<times> state" where
  "publishEvent e s ev =
     (if failing e Publish then (Inl (ErrStore ''publish message''), s)
      else (Inr (), s\<lparr>published := published s @ [ev]\<rparr>))"

section \<open>The service (package service)\<close>

text \<open>\<open>time.Now().UTC().Truncate(24 * time.Hour)\<close>: the start of the UTC day.\<close>

definition today :: "env \<Rightarrow> int" where
  "today e = now_ms e - now_ms e mod 86400000"

definition GetPollStats :: "env \<Rightarrow> state \<Rightarrow> uuid \<Rightarrow> (error + PollStats) \<times> state" where
  "GetPollStats e s pollID =
     (case GetCachedPollStats e s pollID of
        Inr stats \<Rightarrow> (Inr stats, s)
      | Inl _ \<Rightarrow>
          (case GetPollStats_repo e s pollID of
             Inl err \<Rightarrow> (Inl err, s)
           | Inr stats \<Rightarrow> (Inr stats, snd (SetCachedPollStats e s pollID stats))))"

definition VoteOnPoll :: "env \<Rightarrow> state \<Rightarrow> uuid \<Rightarrow> VoteRequest \<Rightarrow> (error + unit) \<times> state" where
  "VoteOnPoll e s pollID req =
     (case HasVoted e s pollID (UserID req) of
        Inl err \<Rightarrow> (Inl err, s)
      | Inr hasVoted \<Rightarrow>
          if hasVoted then (Inl ErrAlreadyVoted, s)
          else
            (case GetPollByID e s pollID of
               (Inl err, s1) \<Rightarrow> (Inl err, s1)
             | (Inr poll, s1) \<Rightarrow>
                 if OptionIndex req < 0 \<or> OptionIndex req \<ge> int (length (p_Options poll))
                 then (Inl ErrInvalidOption, s1)
                 else
                   (case GetUserDailyVoteCount e s1 (UserID req) (today e) of
                      Inl err \<Rightarrow> (Inl err, s1)
                    | Inr voteCount \<Rightarrow>
                        if voteCount \<ge> MaxDailyVotes
                        then (Inl ErrDailyVoteLimitExceeded, s1)
                        else
                          let optionID = o_ID (p_Options poll ! nat (OptionIndex req));
                              vote = \<lparr>v_ID = svc_id e, v_PollID = pollID,
                                      v_UserID = UserID req, v_OptionID = optionID,
                                      v_CreatedAt = now_ms e\<rparr>
                          in (case CreateVote e s1 pollID (UserID req) optionID of
                                (Inl err, s2) \<Rightarrow> (Inl err, s2)
                              | (Inr _, s2) \<Rightarrow>
                                  let s3 = snd (InvalidatePollStatsCache e s2 pollID);
                                      s4 = snd (publishEvent e s3 (PollVoted vote))
                                  in (Inr (), s4)))))"

definition UpdateVote ::
  "env \<Rightarrow> state \<Rightarrow> uuid \<Rightarrow> UpdateVoteRequest option \<Rightarrow> (error + unit) \<times> state" where
  "UpdateVote e s voteID req_opt =
     (case req_opt of
        None \<Rightarrow> (Inl ErrInvalidInput, s)
      | Some req \<Rightarrow>
          (case GetVoteByID e s voteID of
             Inl err \<Rightarrow> (Inl err, s)
           | Inr vote \<Rightarrow>
               if v_UserID vote \<noteq> u_UserID req then (Inl ErrUnauthorized, s)
               else
                 (case GetPollByID e s (v_PollID vote) of
                    (Inl err, s1) \<Rightarrow> (Inl err, s1)
                  | (Inr poll, s1) \<Rightarrow>
                      if u_OptionIndex req < 0
                         \<or> u_OptionIndex req \<ge> int (length (p_Options poll))
                      then (Inl ErrInvalidOption, s1)
                      else
                        let optionID = o_ID (p_Options poll ! nat (u_OptionIndex req))
                        in (case UpdateVote_repo e s1 voteID (u_UserID req) optionID of
                              (Inl err, s2) \<Rightarrow> (Inl err, s2)
                            | (Inr _, s2) \<Rightarrow>
                                let updatedVote =
                                      \<lparr>v_ID = voteID, v_PollID = v_PollID vote,
                                       v_UserID = u_UserID req, v_OptionID = optionID,
                                       v_CreatedAt = v_CreatedAt vote\<rparr>
                                in (Inr (),
                                    snd (publishEvent e s2 (PollVoteUpdated updatedVote)))))))"

definition DeleteVote :: "env \<Rightarrow> state \<Rightarrow> uuid \<Rightarrow> uuid \<Rightarrow> (error + unit) \<times> state" where
  "DeleteVote e s voteID userID =
     (case GetVoteByID e s voteID of
        Inl err \<Rightarrow> (Inl err, s)
      | Inr vote \<Rightarrow>
          if v_UserID vote \<noteq> userID then (Inl ErrUnauthorized, s)
          else
            (case DeleteVote_repo e s voteID userID of
               (Inl err, s1) \<Rightarrow> (Inl err, s1)
             | (Inr _, s1) \<Rightarrow> (Inr (), snd (publishEvent e s1 (PollVoteDeleted vote)))))"

definition SkipPoll :: "env \<Rightarrow> state \<Rightarrow> uuid \<Rightarrow> SkipRequest \<Rightarrow> (error + unit) \<times> state" where
  "SkipPoll e s pollID req =
     (case HasSkipped e s pollID (k_UserID req) of
        Inl err \<Rightarrow> (Inl err, s)
      | Inr hasSkipped \<Rightarrow>
          if hasSkipped then (Inl ErrAlreadySkipped, s)
          else
            let skip = \<lparr>s_ID = svc_id e, s_PollID = pollID, s_UserID = k_UserID req,
                        s_CreatedAt = now_ms e\<rparr>
            in (case CreateSkip e s pollID (k_UserID req) of
                  (Inl err, s1) \<Rightarrow> (Inl err, s1)
                | (Inr _, s1) \<Rightarrow> (Inr (), snd (publishEvent e s1 (PollSkipped skip)))))"

section \<open>The engine's operations and its reachable states\<close>

datatype op =
    OpVote uuid VoteRequest
  | OpUpdate uuid "UpdateVoteRequest option"
  | OpDelete uuid uuid
  | OpSkip uuid SkipRequest
  | OpStats uuid
  | OpRateLimit request
  | OpBurstLimit request

fun exec :: "env \<Rightarrow> op \<Rightarrow> state \<Rightarrow> state" where
  "exec e (OpVote pollID req) s = snd (VoteOnPoll e s pollID req)"
| "exec e (OpUpdate voteID req) s = snd (UpdateVote e s voteID req)"
| "exec e (OpDelete voteID userID) s = snd (DeleteVote e s voteID userID)"
| "exec e (OpSkip pollID req) s = snd (SkipPoll e s pollID req)"
| "exec e (OpStats pollID) s = snd (GetPollStats e s pollID)"
| "exec e (OpRateLimit req) s = s\<lparr>counters := snd (RateLimit e req (counters s))\<rparr>"
| "exec e (OpBurstLimit req) s = s\<lparr>counters := snd (BurstLimit e req (counters s))\<rparr>"

fun run :: "(env \<times> op) list \<Rightarrow> state \<Rightarrow> state" where
  "run [] s = s"
| "run (x # xs) s = run xs (exec (fst x) (snd x) s)"

text \<open>The engine starts on a ledger with no vote and no skip, whatever polls, users
  and cache entries there are.\<close>

inductive reachable :: "state \<Rightarrow> bool" where
  start: "votes s = [] \<Longrightarrow> skips s = [] \<Longrightarrow> reachable s"
| step: "reachable s \<Longrightarrow> reachable (exec e x s)"

section \<open>Observations\<close>





definition vote_pairs :: "state \<Rightarrow> (uuid \<times> uuid) list" where
  "vote_pairs s = map (\<lambda>v. (v_PollID v, v_UserID v)) (votes s)"

definition daily_count :: "state \<Rightarrow> uuid \<Rightarrow> int \<Rightarrow> int" where
  "daily_count s userID date =
     (case user_daily_votes s (userID, date) of None \<Rightarrow> 0 | Some c \<Rightarrow> c)"

definition new_vote :: "env \<Rightarrow> uuid \<Rightarrow> uuid \<Rightarrow> uuid \<Rightarrow> Vote" where
  "new_vote e pollID userID optionID =
     \<lparr>v_ID = row_id e, v_PollID = pollID, v_UserID = userID, v_OptionID = optionID,
      v_CreatedAt = now_ms e\<rparr>"

definition insertable :: "env \<Rightarrow> state \<Rightarrow> uuid \<Rightarrow> uuid \<Rightarrow> uuid \<Rightarrow> bool" where
  "insertable e s pollID userID optionID =
     (\<not> failing e DbInsertVote \<and> row_id e \<notin> set (map v_ID (votes s))
      \<and> (pollID, userID) \<notin> set (vote_pairs s)
      \<and> pollID \<in> set (map pr_id (polls s)) \<and> userID \<in> set (users s)
      \<and> optionID \<in> set (map or_id (poll_options s)))"


definition with_failures :: "env \<Rightarrow> iostep list \<Rightarrow> env" where
  "with_failures e fs = e\<lparr>fails := fs @ fails e\<rparr>"

definition fresh_stats :: "state \<Rightarrow> uuid \<Rightarrow> PollStats" where
  "fresh_stats s pollID = \<lparr>st_PollID = pollID, st_Votes = stats_rows s pollID\<rparr>"

section \<open>Sample data\<close>

text \<open>
  One poll with two options and two users, a caller on a route that is not exempt, an
  environment without failures at time 0, and a rate window that is full.
\<close>

definition env0 :: env where
  "env0 = \<lparr>now_ms = 0, fails = [], svc_id = ''id-a'', row_id = ''id-b''\<rparr>"



definition state0 :: state where
  "state0 =
     \<lparr>users = [''u1'', ''u2''],
      polls = [\<lparr>pr_id = ''p1'', pr_title = ''Tea or coffee'', pr_created_at = 0,
                pr_updated_at = 0\<rparr>],
      poll_options =
        [\<lparr>or_id = ''o1'', or_poll_id = ''p1'', or_option_text = ''tea'',
          or_option_index = 0, or_created_at = 1\<rparr>,
         \<lparr>or_id = ''o2'', or_poll_id = ''p1'', or_option_text = ''coffee'',
          or_option_index = 1, or_created_at = 2\<rparr>],
      poll_tags = [(''p1'', ''drinks'')],
      votes = [], skips = [],
      user_daily_votes = Map.empty, poll_cache = Map.empty, stats_cache = Map.empty,
      counters = Map.empty, published = []\<rparr>"

definition poll0 :: Poll where
  "poll0 =
     \<lparr>p_ID = ''p1'', p_Title = ''Tea or coffee'',
      p_Options =
        [\<lparr>o_ID = ''o1'', o_PollID = ''p1'', o_OptionText = ''tea'', o_OptionIndex = 0,
          o_CreatedAt = 1\<rparr>,
         \<lparr>o_ID = ''o2'', o_PollID = ''p1'', o_OptionText = ''coffee'', o_OptionIndex = 0,
          o_CreatedAt = 2\<rparr>],
      p_Tags = [''drinks''], p_CreatedAt = 0, p_UpdatedAt = 0\<rparr>"

definition vote0 :: Vote where
  "vote0 = \<lparr>v_ID = ''v1'', v_PollID = ''p1'', v_UserID = ''u1'', v_OptionID = ''o1'',
            v_CreatedAt = 0\<rparr>"

definition voted0 :: state where
  "voted0 = state0\<lparr>votes := [vote0]\<rparr>"

definition stats0 :: "int \<Rightarrow> int \<Rightarrow> PollStats" where
  "stats0 tea coffee =
     \<lparr>st_PollID = ''p1'',
      st_Votes = [\<lparr>os_Option = ''tea'', os_Count = tea\<rparr>,
                  \<lparr>os_Option = ''coffee'', os_Count = coffee\<rparr>]\<rparr>"

section \<open>Exempt routes\<close>

lemma exempt_stats_path: "exempt (''/api/polls/'' @ pid @ ''/stats'')"
  by (simp add: exempt_def HasPrefix_def HasSuffix_def)

lemma RateLimit_exempt: "exempt (path req) \<Longrightarrow> RateLimit e req r = (pass, r)"
  by (simp add: RateLimit_def)

lemma BurstLimit_exempt: "exempt (path req) \<Longrightarrow> BurstLimit e req r = (pass, r)"
  by (simp add: BurstLimit_def)

lemma rate_run_exempt:
  "exempt (path req) \<Longrightarrow> rate_run es req r = (replicate (length es) pass, r)"
  by (induction es) (simp_all add: RateLimit_exempt)

lemma burst_run_exempt:
  "exempt (path req) \<Longrightarrow> burst_run es req r = (replicate (length es) pass, r)"
  by (induction es) (simp_all add: BurstLimit_exempt)

text \<open>
  C9. On the public statistics path \<open>/api/polls/{id}/stats\<close> both limiters hand the
  request on and leave the counter store as it was, whoever the caller is, whatever the
  store holds and whichever store operations would fail; so does any number of such
  requests in a row.
\<close>

theorem exempt_stats_route_bypasses_limiters:
  "RateLimit e (req\<lparr>path := ''/api/polls/'' @ pid @ ''/stats''\<rparr>) r = (pass, r) \<and>
   BurstLimit e (req\<lparr>path := ''/api/polls/'' @ pid @ ''/stats''\<rparr>) r = (pass, r) \<and>
   rate_run es (req\<lparr>path := ''/api/polls/'' @ pid @ ''/stats''\<rparr>) r
     = (replicate (length es) pass, r) \<and>
   burst_run es (req\<lparr>path := ''/api/polls/'' @ pid @ ''/stats''\<rparr>) r
     = (replicate (length es) pass, r) \<and>
   verdict pass = Next"
proof -
  let ?q = "req\<lparr>path := ''/api/polls/'' @ pid @ ''/stats''\<rparr>"
  have ex: "exempt (path ?q)"
    using exempt_stats_path [of pid] by simp
  show ?thesis
    using RateLimit_exempt [OF ex] BurstLimit_exempt [OF ex]
      rate_run_exempt [OF ex] burst_run_exempt [OF ex]
    by (simp only: pass_def reply.simps simp_thms)
qed

section \<open>The burst limiter\<close>














section \<open>The sustained rate limiter\<close>









section \<open>Failing counter-store operations\<close>





section \<open>What each repository call changes\<close>

lemma SetCachedPoll_frame:
  "\<exists>pc. snd (SetCachedPoll e s poll) = s\<lparr>poll_cache := pc\<rparr>"
  by (cases "failing e CacheSetPoll") (auto simp: SetCachedPoll_def intro: exI [of _ "poll_cache s"])

lemma GetPollByID_frame:
  "\<exists>pc. snd (GetPollByID e s pid) = s\<lparr>poll_cache := pc\<rparr>"
proof -
  have same: "\<exists>pc. s = s\<lparr>poll_cache := pc\<rparr>"
    by (rule exI [of _ "poll_cache s"]) simp
  show ?thesis
    using same SetCachedPoll_frame [of e s]
    by (auto simp: GetPollByID_def Let_def split: sum.splits option.splits)
qed

lemma GetPollByID_fields [simp]:
  "users (snd (GetPollByID e s pid)) = users s"
  "polls (snd (GetPollByID e s pid)) = polls s"
  "poll_options (snd (GetPollByID e s pid)) = poll_options s"
  "poll_tags (snd (GetPollByID e s pid)) = poll_tags s"
  "votes (snd (GetPollByID e s pid)) = votes s"
  "skips (snd (GetPollByID e s pid)) = skips s"
  "user_daily_votes (snd (GetPollByID e s pid)) = user_daily_votes s"
  "stats_cache (snd (GetPollByID e s pid)) = stats_cache s"
  "counters (snd (GetPollByID e s pid)) = counters s"
  "published (snd (GetPollByID e s pid)) = published s"
  using GetPollByID_frame [of e s pid] by auto

lemma SetCachedPoll_fields [simp]:
  "users (snd (SetCachedPoll e s poll)) = users s"
  "polls (snd (SetCachedPoll e s poll)) = polls s"
  "poll_options (snd (SetCachedPoll e s poll)) = poll_options s"
  "poll_tags (snd (SetCachedPoll e s poll)) = poll_tags s"
  "votes (snd (SetCachedPoll e s poll)) = votes s"
  "skips (snd (SetCachedPoll e s poll)) = skips s"
  "user_daily_votes (snd (SetCachedPoll e s poll)) = user_daily_votes s"
  "stats_cache (snd (SetCachedPoll e s poll)) = stats_cache s"
  "counters (snd (SetCachedPoll e s poll)) = counters s"
  "published (snd (SetCachedPoll e s poll)) = published s"
  using SetCachedPoll_frame [of e s poll] by auto

lemma InvalidatePollStatsCache_fields [simp]:
  "users (snd (InvalidatePollStatsCache e s pid)) = users s"
  "polls (snd (InvalidatePollStatsCache e s pid)) = polls s"
  "poll_options (snd (InvalidatePollStatsCache e s pid)) = poll_options s"
  "poll_tags (snd (InvalidatePollStatsCache e s pid)) = poll_tags s"
  "votes (snd (InvalidatePollStatsCache e s pid)) = votes s"
  "skips (snd (InvalidatePollStatsCache e s pid)) = skips s"
  "user_daily_votes (snd (InvalidatePollStatsCache e s pid)) = user_daily_votes s"
  "poll_cache (snd (InvalidatePollStatsCache e s pid)) = poll_cache s"
  "counters (snd (InvalidatePollStatsCache e s pid)) = counters s"
  "published (snd (InvalidatePollStatsCache e s pid)) = published s"
  "stats_cache (snd (InvalidatePollStatsCache e s pid)) =
     (if failing e CacheDelStats then stats_cache s else (stats_cache s)(pid := None))"
  by (simp_all add: InvalidatePollStatsCache_def)

lemma SetCachedPollStats_fields [simp]:
  "users (snd (SetCachedPollStats e s pid st)) = users s"
  "polls (snd (SetCachedPollStats e s pid st)) = polls s"
  "poll_options (snd (SetCachedPollStats e s pid st)) = poll_options s"
  "poll_tags (snd (SetCachedPollStats e s pid st)) = poll_tags s"
  "votes (snd (SetCachedPollStats e s pid st)) = votes s"
  "skips (snd (SetCachedPollStats e s pid st)) = skips s"
  "user_daily_votes (snd (SetCachedPollStats e s pid st)) = user_daily_votes s"
  "poll_cache (snd (SetCachedPollStats e s pid st)) = poll_cache s"
  "counters (snd (SetCachedPollStats e s pid st)) = counters s"
  "published (snd (SetCachedPollStats e s pid st)) = published s"
  "stats_cache (snd (SetCachedPollStats e s pid st)) =
     (if failing e CacheSetStats then stats_cache s
      else (stats_cache s)(pid \<mapsto> (st, now_ms e + 300000)))"
  by (simp_all add: SetCachedPollStats_def)

lemma publishEvent_fields [simp]:
  "users (snd (publishEvent e s ev)) = users s"
  "polls (snd (publishEvent e s ev)) = polls s"
  "poll_options (snd (publishEvent e s ev)) = poll_options s"
  "poll_tags (snd (publishEvent e s ev)) = poll_tags s"
  "votes (snd (publishEvent e s ev)) = votes s"
  "skips (snd (publishEvent e s ev)) = skips s"
  "user_daily_votes (snd (publishEvent e s ev)) = user_daily_votes s"
  "poll_cache (snd (publishEvent e s ev)) = poll_cache s"
  "stats_cache (snd (publishEvent e s ev)) = stats_cache s"
  "counters (snd (publishEvent e s ev)) = counters s"
  "published (snd (publishEvent e s ev)) =
     (if failing e Publish then published s else published s @ [ev])"
  by (simp_all add: publishEvent_def)

text \<open>The insert of a vote either leaves the table as it was, with an error, or
  appends the one new row, with success; nothing but the table and the poll cache
  changes.\<close>

lemma CreateVote_ok:
  assumes "insertable e s pollID userID optionID"
  shows "fst (CreateVote e s pollID userID optionID) = Inr ()"
    and "votes (snd (CreateVote e s pollID userID optionID))
           = votes s @ [new_vote e pollID userID optionID]"
proof -
  let ?s1 = "s\<lparr>votes := votes s @ [new_vote e pollID userID optionID]\<rparr>"
  have eq: "CreateVote e s pollID userID optionID =
      (case GetPollByID e ?s1 pollID of
         (Inr poll, s2) \<Rightarrow> (Inr (), snd (SetCachedPoll e s2 poll))
       | (Inl _, s2) \<Rightarrow> (Inr (), s2))"
    using assms by (simp add: CreateVote_def insertable_def vote_pairs_def new_vote_def)
  obtain res s2 where g: "GetPollByID e ?s1 pollID = (res, s2)"
    by (cases "GetPollByID e ?s1 pollID")
  have v2: "votes s2 = votes ?s1"
    using GetPollByID_fields(5) [of e ?s1 pollID] g by simp
  show "fst (CreateVote e s pollID userID optionID) = Inr ()"
    unfolding eq g by (cases res) simp_all
  show "votes (snd (CreateVote e s pollID userID optionID))
           = votes s @ [new_vote e pollID userID optionID]"
    unfolding eq g using v2 by (cases res) simp_all
qed

lemma CreateVote_fail:
  assumes "\<not> insertable e s pollID userID optionID"
  shows "CreateVote e s pollID userID optionID =
     (Inl (if \<not> failing e DbInsertVote
              \<and> (row_id e \<in> set (map v_ID (votes s)) \<or> (pollID, userID) \<in> set (vote_pairs s))
           then ErrAlreadyVoted else ErrStore ''create vote''), s)"
  using assms by (auto simp: CreateVote_def insertable_def vote_pairs_def)

lemma CreateVote_fields [simp]:
  "users (snd (CreateVote e s p u x)) = users s"
  "polls (snd (CreateVote e s p u x)) = polls s"
  "poll_options (snd (CreateVote e s p u x)) = poll_options s"
  "poll_tags (snd (CreateVote e s p u x)) = poll_tags s"
  "skips (snd (CreateVote e s p u x)) = skips s"
  "user_daily_votes (snd (CreateVote e s p u x)) = user_daily_votes s"
  "stats_cache (snd (CreateVote e s p u x)) = stats_cache s"
  "counters (snd (CreateVote e s p u x)) = counters s"
  "published (snd (CreateVote e s p u x)) = published s"
proof -
  let ?s1 = "s\<lparr>votes := votes s @ [new_vote e p u x]\<rparr>"
  obtain res s2 where g: "GetPollByID e ?s1 p = (res, s2)"
    by (cases "GetPollByID e ?s1 p")
  have s2: "\<exists>pc. s2 = ?s1\<lparr>poll_cache := pc\<rparr>"
    using GetPollByID_frame [of e ?s1 p] g by simp
  have "\<exists>vs pc. snd (CreateVote e s p u x) = s\<lparr>votes := vs, poll_cache := pc\<rparr>"
  proof (cases "insertable e s p u x")
    case False
    have "s = s\<lparr>votes := votes s, poll_cache := poll_cache s\<rparr>" by simp
    then show ?thesis
      unfolding CreateVote_fail [OF False] by (metis snd_conv)
  next
    case True
    then have eq: "CreateVote e s p u x =
      (case GetPollByID e ?s1 p of
         (Inr poll, s2) \<Rightarrow> (Inr (), snd (SetCachedPoll e s2 poll))
       | (Inl _, s2) \<Rightarrow> (Inr (), s2))"
      by (simp add: CreateVote_def insertable_def vote_pairs_def new_vote_def)
    from s2 obtain pc where pc: "s2 = ?s1\<lparr>poll_cache := pc\<rparr>" by blast
    show ?thesis
    proof (cases res)
      case (Inl a)
      then show ?thesis unfolding eq g pc by (auto intro: exI)
    next
      case (Inr poll)
      obtain pc' where "snd (SetCachedPoll e s2 poll) = s2\<lparr>poll_cache := pc'\<rparr>"
        using SetCachedPoll_frame by blast
      then show ?thesis unfolding eq g pc using Inr by (auto intro: exI)
    qed
  qed
  then obtain vs pc where r: "snd (CreateVote e s p u x) = s\<lparr>votes := vs, poll_cache := pc\<rparr>"
    by blast
  show "users (snd (CreateVote e s p u x)) = users s"
    "polls (snd (CreateVote e s p u x)) = polls s"
    "poll_options (snd (CreateVote e s p u x)) = poll_options s"
    "poll_tags (snd (CreateVote e s p u x)) = poll_tags s"
    "skips (snd (CreateVote e s p u x)) = skips s"
    "user_daily_votes (snd (CreateVote e s p u x)) = user_daily_votes s"
    "stats_cache (snd (CreateVote e s p u x)) = stats_cache s"
    "counters (snd (CreateVote e s p u x)) = counters s"
    "published (snd (CreateVote e s p u x)) = published s"
    by (simp_all add: r)
qed

section \<open>Voting\<close>

lemma HasVoted_eq:
  "\<not> failing e DbHasVoted \<Longrightarrow>
   HasVoted e s pollID userID = Inr ((pollID, userID) \<in> set (vote_pairs s))"
  by (simp add: HasVoted_def vote_pairs_def)

lemma GetPollByID_missing:
  assumes "isl (GetCachedPoll e s pid)" "\<not> failing e DbGetPoll"
    and "pid \<notin> set (map pr_id (polls s))"
  shows "GetPollByID e s pid = (Inl ErrNotFound, s)"
proof -
  have "find (\<lambda>r. pr_id r = pid) (polls s) = None"
    using assms(3) by (auto simp: find_None_iff)
  then show ?thesis
    using assms(1,2) by (auto simp: GetPollByID_def split: sum.splits)
qed

lemma insertable_after_lookup:
  "insertable e (snd (GetPollByID e' s pid)) p u x = insertable e s p u x"
  by (simp add: insertable_def vote_pairs_def)

lemma GetUserDailyVoteCount_eq:
  "\<not> failing e DbDailyCount \<Longrightarrow>
   GetUserDailyVoteCount e s userID date = Inr (daily_count s userID date)"
  by (simp add: GetUserDailyVoteCount_def daily_count_def split: option.splits)

lemma daily_count_after_lookup:
  "daily_count (snd (GetPollByID e s pid)) u d = daily_count s u d"
  by (simp add: daily_count_def)

lemma VoteOnPoll_found:
  assumes hv: "\<not> failing e DbHasVoted" "(pollID, UserID req) \<notin> set (vote_pairs s)"
    and g: "GetPollByID e s pollID = (Inr poll, s1)"
  shows "VoteOnPoll e s pollID req =
    (if OptionIndex req < 0 \<or> OptionIndex req \<ge> int (length (p_Options poll))
     then (Inl ErrInvalidOption, s1)
     else
       (case GetUserDailyVoteCount e s1 (UserID req) (today e) of
          Inl err \<Rightarrow> (Inl err, s1)
        | Inr voteCount \<Rightarrow>
            if voteCount \<ge> 100 then (Inl ErrDailyVoteLimitExceeded, s1)
            else
              (case CreateVote e s1 pollID (UserID req)
                      (o_ID (p_Options poll ! nat (OptionIndex req))) of
                 (Inl err, s2) \<Rightarrow> (Inl err, s2)
               | (Inr _, s2) \<Rightarrow>
                   (Inr (),
                    snd (publishEvent e (snd (InvalidatePollStatsCache e s2 pollID))
                      (PollVoted \<lparr>v_ID = svc_id e, v_PollID = pollID,
                                   v_UserID = UserID req,
                                   v_OptionID = o_ID (p_Options poll ! nat (OptionIndex req)),
                                   v_CreatedAt = now_ms e\<rparr>))))))"
  using hv g
  by (simp add: VoteOnPoll_def HasVoted_eq MaxDailyVotes_def Let_def
      split: sum.splits prod.splits)

text \<open>The position of an option in the list \<open>GetPollByID\<close> reads from the table is
  its option index when the poll's rows stand in index order with creation times that
  do not decrease, as \<open>CreatePoll\<close> inserts them.\<close>

lemma options_of_in_index_order:
  assumes "sorted (map or_created_at (filter (\<lambda>r. or_poll_id r = pid) (poll_options s)))"
    and "map or_option_index (filter (\<lambda>r. or_poll_id r = pid) (poll_options s))
           = map int [0..<length (filter (\<lambda>r. or_poll_id r = pid) (poll_options s))]"
    and "i < length (filter (\<lambda>r. or_poll_id r = pid) (poll_options s))"
  shows "o_ID (options_of s pid ! i)
           = or_id (filter (\<lambda>r. or_poll_id r = pid) (poll_options s) ! i)"
    and "or_option_index (filter (\<lambda>r. or_poll_id r = pid) (poll_options s) ! i) = int i"
proof -
  let ?rows = "filter (\<lambda>r. or_poll_id r = pid) (poll_options s)"
  have "sort_key or_created_at ?rows = ?rows"
    using assms(1) by (rule sort_key_id_if_sorted)
  then show "o_ID (options_of s pid ! i) = or_id (?rows ! i)"
    using assms(3) by (simp add: options_of_def)
  have "map or_option_index ?rows ! i = map int [0..<length ?rows] ! i"
    using assms(2) by simp
  then show "or_option_index (?rows ! i) = int i"
    using assms(3) by simp
qed


lemma env0_simps [simp]:
  "failing env0 st = False" "now_ms env0 = 0" "row_id env0 = ''id-b''" "svc_id env0 = ''id-a''"
  "today env0 = 0"
  by (simp_all add: env0_def failing_def today_def)

lemma state0_simps [simp]:
  "users state0 = [''u1'', ''u2'']"
  "map pr_id (polls state0) = [''p1'']"
  "map or_id (poll_options state0) = [''o1'', ''o2'']"
  "votes state0 = []" "skips state0 = []"
  "user_daily_votes state0 = Map.empty" "poll_cache state0 = Map.empty"
  "stats_cache state0 = Map.empty" "published state0 = []"
  by (simp_all add: state0_def)

lemma GetPollByID_state0:
  "GetPollByID env0 (state0\<lparr>votes := vs, user_daily_votes := d\<rparr>) ''p1'' =
     (Inr poll0,
      state0\<lparr>votes := vs, user_daily_votes := d,
             poll_cache := [''p1'' \<mapsto> (poll0, 86400000)]\<rparr>)"
  by (simp add: GetPollByID_def GetCachedPoll_def SetCachedPoll_def options_of_def tags_of_def
      state0_def poll0_def Let_def)


section \<open>What each operation of the service changes\<close>

lemma CreateVote_votes:
  "votes (snd (CreateVote e s p u x)) =
     (if insertable e s p u x then votes s @ [new_vote e p u x] else votes s)"
  using CreateVote_ok(2) [of e s p u x] CreateVote_fail [of e s p u x] by simp

lemma CreateVote_result:
  "(fst (CreateVote e s p u x) = Inr ()) = insertable e s p u x"
  by (cases "insertable e s p u x") (simp_all add: CreateVote_ok(1) CreateVote_fail)

lemma CreateSkip_fields [simp]:
  "users (snd (CreateSkip e s p u)) = users s"
  "polls (snd (CreateSkip e s p u)) = polls s"
  "poll_options (snd (CreateSkip e s p u)) = poll_options s"
  "poll_tags (snd (CreateSkip e s p u)) = poll_tags s"
  "votes (snd (CreateSkip e s p u)) = votes s"
  "user_daily_votes (snd (CreateSkip e s p u)) = user_daily_votes s"
  "poll_cache (snd (CreateSkip e s p u)) = poll_cache s"
  "stats_cache (snd (CreateSkip e s p u)) = stats_cache s"
  "counters (snd (CreateSkip e s p u)) = counters s"
  "published (snd (CreateSkip e s p u)) = published s"
  by (simp_all add: CreateSkip_def)

lemma DeleteVote_repo_fields [simp]:
  "users (snd (DeleteVote_repo e s v u)) = users s"
  "polls (snd (DeleteVote_repo e s v u)) = polls s"
  "poll_options (snd (DeleteVote_repo e s v u)) = poll_options s"
  "poll_tags (snd (DeleteVote_repo e s v u)) = poll_tags s"
  "skips (snd (DeleteVote_repo e s v u)) = skips s"
  "user_daily_votes (snd (DeleteVote_repo e s v u)) = user_daily_votes s"
  "poll_cache (snd (DeleteVote_repo e s v u)) = poll_cache s"
  "stats_cache (snd (DeleteVote_repo e s v u)) = stats_cache s"
  "counters (snd (DeleteVote_repo e s v u)) = counters s"
  "published (snd (DeleteVote_repo e s v u)) = published s"
  by (simp_all add: DeleteVote_repo_def Let_def)


lemma UpdateVote_repo_fields [simp]:
  "users (snd (UpdateVote_repo e s v u x)) = users s"
  "polls (snd (UpdateVote_repo e s v u x)) = polls s"
  "poll_options (snd (UpdateVote_repo e s v u x)) = poll_options s"
  "poll_tags (snd (UpdateVote_repo e s v u x)) = poll_tags s"
  "skips (snd (UpdateVote_repo e s v u x)) = skips s"
  "user_daily_votes (snd (UpdateVote_repo e s v u x)) = user_daily_votes s"
  "poll_cache (snd (UpdateVote_repo e s v u x)) = poll_cache s"
  "counters (snd (UpdateVote_repo e s v u x)) = counters s"
  "published (snd (UpdateVote_repo e s v u x)) = published s"
  by (simp_all add: UpdateVote_repo_def Let_def split: sum.splits)

lemma UpdateVote_repo_votes:
  "\<exists>f. votes (snd (UpdateVote_repo e s v u x)) = map f (votes s)
       \<and> (\<forall>w. v_ID (f w) = v_ID w \<and> v_PollID (f w) = v_PollID w \<and> v_UserID (f w) = v_UserID w)"
proof -
  let ?f = "\<lambda>w. if v_ID w = v \<and> v_UserID w = u then w\<lparr>v_OptionID := x\<rparr> else w"
  have f: "\<forall>w. v_ID (?f w) = v_ID w \<and> v_PollID (?f w) = v_PollID w \<and> v_UserID (?f w) = v_UserID w"
    by simp
  have i: "\<forall>w::Vote. v_ID (id w) = v_ID w \<and> v_PollID (id w) = v_PollID w \<and> v_UserID (id w) = v_UserID w"
    by simp
  have "votes (snd (UpdateVote_repo e s v u x)) = map ?f (votes s)
        \<or> votes (snd (UpdateVote_repo e s v u x)) = map id (votes s)"
    by (simp add: UpdateVote_repo_def Let_def split: sum.splits)
  then show ?thesis
    using f i by blast
qed

lemma VoteOnPoll_fields [simp]:
  "users (snd (VoteOnPoll e s p req)) = users s"
  "polls (snd (VoteOnPoll e s p req)) = polls s"
  "poll_options (snd (VoteOnPoll e s p req)) = poll_options s"
  "poll_tags (snd (VoteOnPoll e s p req)) = poll_tags s"
  "skips (snd (VoteOnPoll e s p req)) = skips s"
  "user_daily_votes (snd (VoteOnPoll e s p req)) = user_daily_votes s"
  "counters (snd (VoteOnPoll e s p req)) = counters s"
  by (simp_all add: VoteOnPoll_def Let_def split_def split: sum.splits)


lemma UpdateVote_fields [simp]:
  "users (snd (UpdateVote e s v req)) = users s"
  "polls (snd (UpdateVote e s v req)) = polls s"
  "poll_options (snd (UpdateVote e s v req)) = poll_options s"
  "poll_tags (snd (UpdateVote e s v req)) = poll_tags s"
  "skips (snd (UpdateVote e s v req)) = skips s"
  "user_daily_votes (snd (UpdateVote e s v req)) = user_daily_votes s"
  "counters (snd (UpdateVote e s v req)) = counters s"
  by (simp_all add: UpdateVote_def Let_def split_def split: sum.splits option.splits)

lemma DeleteVote_fields [simp]:
  "users (snd (DeleteVote e s v u)) = users s"
  "polls (snd (DeleteVote e s v u)) = polls s"
  "poll_options (snd (DeleteVote e s v u)) = poll_options s"
  "poll_tags (snd (DeleteVote e s v u)) = poll_tags s"
  "skips (snd (DeleteVote e s v u)) = skips s"
  "user_daily_votes (snd (DeleteVote e s v u)) = user_daily_votes s"
  "poll_cache (snd (DeleteVote e s v u)) = poll_cache s"
  "stats_cache (snd (DeleteVote e s v u)) = stats_cache s"
  "counters (snd (DeleteVote e s v u)) = counters s"
  by (simp_all add: DeleteVote_def Let_def split_def split: sum.splits)

lemma SkipPoll_fields [simp]:
  "users (snd (SkipPoll e s p req)) = users s"
  "polls (snd (SkipPoll e s p req)) = polls s"
  "poll_options (snd (SkipPoll e s p req)) = poll_options s"
  "poll_tags (snd (SkipPoll e s p req)) = poll_tags s"
  "votes (snd (SkipPoll e s p req)) = votes s"
  "user_daily_votes (snd (SkipPoll e s p req)) = user_daily_votes s"
  "poll_cache (snd (SkipPoll e s p req)) = poll_cache s"
  "stats_cache (snd (SkipPoll e s p req)) = stats_cache s"
  "counters (snd (SkipPoll e s p req)) = counters s"
  by (simp_all add: SkipPoll_def Let_def split_def split: sum.splits)

lemma GetPollStats_fields [simp]:
  "users (snd (GetPollStats e s p)) = users s"
  "polls (snd (GetPollStats e s p)) = polls s"
  "poll_options (snd (GetPollStats e s p)) = poll_options s"
  "poll_tags (snd (GetPollStats e s p)) = poll_tags s"
  "votes (snd (GetPollStats e s p)) = votes s"
  "skips (snd (GetPollStats e s p)) = skips s"
  "user_daily_votes (snd (GetPollStats e s p)) = user_daily_votes s"
  "poll_cache (snd (GetPollStats e s p)) = poll_cache s"
  "counters (snd (GetPollStats e s p)) = counters s"
  "published (snd (GetPollStats e s p)) = published s"
  by (simp_all add: GetPollStats_def split: sum.splits)

section \<open>One vote per poll and user\<close>


lemma UpdateVote_votes:
  "\<exists>f. votes (snd (UpdateVote e s v req)) = map f (votes s)
       \<and> (\<forall>w. v_ID (f w) = v_ID w \<and> v_PollID (f w) = v_PollID w \<and> v_UserID (f w) = v_UserID w)"
proof -
  have i: "votes s = map id (votes s)
      \<and> (\<forall>w::Vote. v_ID (id w) = v_ID w \<and> v_PollID (id w) = v_PollID w
            \<and> v_UserID (id w) = v_UserID w)"
    by simp
  have "votes (snd (UpdateVote e s v req)) = votes s
      \<or> (\<exists>s1 u x. votes s1 = votes s
            \<and> votes (snd (UpdateVote e s v req)) = votes (snd (UpdateVote_repo e s1 v u x)))"
    by (simp add: UpdateVote_def Let_def split_def split: sum.splits option.splits)
      (metis GetPollByID_fields(5))
  then show ?thesis
    using i UpdateVote_repo_votes by metis
qed

lemma UpdateVote_vote_pairs [simp]:
  "vote_pairs (snd (UpdateVote e s v req)) = vote_pairs s"
proof -
  obtain f where f: "votes (snd (UpdateVote e s v req)) = map f (votes s)"
    "\<forall>w. v_ID (f w) = v_ID w \<and> v_PollID (f w) = v_PollID w \<and> v_UserID (f w) = v_UserID w"
    using UpdateVote_votes by blast
  show ?thesis
    by (simp add: vote_pairs_def f)
qed







lemma reachable_run: "reachable s \<Longrightarrow> reachable (run xs s)"
  by (induction xs arbitrary: s) (simp_all add: reachable.step)

lemma reachable_iff_run:
  "reachable s = (\<exists>s0 xs. votes s0 = [] \<and> skips s0 = [] \<and> s = run xs s0)"
proof
  assume "reachable s"
  then show "\<exists>s0 xs. votes s0 = [] \<and> skips s0 = [] \<and> s = run xs s0"
  proof (induction rule: reachable.induct)
    case (start s)
    then have "votes s = [] \<and> skips s = [] \<and> s = run [] s" by simp
    then show ?case by blast
  next
    case (step s e x)
    then obtain s0 xs where a: "votes s0 = []" "skips s0 = []" "s = run xs s0" by blast
    have "run (xs @ [(e, x)]) s0 = exec e x (run xs s0)"
      by (induction xs arbitrary: s0) simp_all
    then have "votes s0 = [] \<and> skips s0 = [] \<and> exec e x s = run (xs @ [(e, x)]) s0"
      using a by simp
    then show ?case by blast
  qed
next
  assume "\<exists>s0 xs. votes s0 = [] \<and> skips s0 = [] \<and> s = run xs s0"
  then show "reachable s"
    using reachable_run reachable.start by blast
qed



lemma VoteOnPoll_accept:
  assumes hv: "\<not> failing e DbHasVoted" "(pollID, UserID req) \<notin> set (vote_pairs s)"
    and g: "GetPollByID e s pollID = (Inr poll, s1)"
    and i: "0 \<le> OptionIndex req" "OptionIndex req < int (length (p_Options poll))"
    and d: "\<not> failing e DbDailyCount" "daily_count s (UserID req) (today e) < 100"
    and ins: "insertable e s pollID (UserID req) (o_ID (p_Options poll ! nat (OptionIndex req)))"
  shows "VoteOnPoll e s pollID req =
      (Inr (),
       snd (publishEvent e
         (snd (InvalidatePollStatsCache e
            (snd (CreateVote e s1 pollID (UserID req)
                    (o_ID (p_Options poll ! nat (OptionIndex req))))) pollID))
         (PollVoted \<lparr>v_ID = svc_id e, v_PollID = pollID, v_UserID = UserID req,
                      v_OptionID = o_ID (p_Options poll ! nat (OptionIndex req)),
                      v_CreatedAt = now_ms e\<rparr>)))"
proof -
  let ?x = "o_ID (p_Options poll ! nat (OptionIndex req))"
  from g have s1: "s1 = snd (GetPollByID e s pollID)" by simp
  have ins1: "insertable e s1 pollID (UserID req) ?x"
    using ins by (simp add: s1 insertable_after_lookup)
  have dc: "daily_count s1 (UserID req) (today e) < 100"
    using d(2) by (simp add: s1 daily_count_after_lookup)
  obtain r2 s2 where c: "CreateVote e s1 pollID (UserID req) ?x = (r2, s2)"
    by (cases "CreateVote e s1 pollID (UserID req) ?x")
  have r2: "r2 = Inr ()"
    using CreateVote_ok(1) [OF ins1] c by simp
  show ?thesis
    using VoteOnPoll_found [OF hv g] i d(1) dc
    by (simp add: GetUserDailyVoteCount_eq c r2)
qed

lemma sample_vote:
  "VoteOnPoll env0 state0 ''p1'' \<lparr>UserID = ''u1'', OptionIndex = 1\<rparr> =
     (Inr (),
      snd (publishEvent env0
         (snd (InvalidatePollStatsCache env0
            (snd (CreateVote env0 (state0\<lparr>poll_cache := [''p1'' \<mapsto> (poll0, 86400000)]\<rparr>)
                   ''p1'' ''u1'' ''o2'')) ''p1''))
         (PollVoted \<lparr>v_ID = ''id-a'', v_PollID = ''p1'', v_UserID = ''u1'',
                      v_OptionID = ''o2'', v_CreatedAt = 0\<rparr>)))"
proof -
  have g: "GetPollByID env0 state0 ''p1'' =
     (Inr poll0, state0\<lparr>poll_cache := [''p1'' \<mapsto> (poll0, 86400000)]\<rparr>)"
    using GetPollByID_state0 [where vs = "[]" and d = Map.empty] by (simp add: state0_def)
  have x: "o_ID (p_Options poll0 ! Suc 0) = ''o2''" "length (p_Options poll0) = 2"
    by (simp_all add: poll0_def)
  show ?thesis
    using VoteOnPoll_accept [of env0 "''p1''" "\<lparr>UserID = ''u1'', OptionIndex = 1\<rparr>" state0,
        OF _ _ g]
    by (simp add: x vote_pairs_def daily_count_def insertable_def)
qed

lemma sample_vote_votes:
  "votes (snd (VoteOnPoll env0 state0 ''p1'' \<lparr>UserID = ''u1'', OptionIndex = 1\<rparr>)) =
     [\<lparr>v_ID = ''id-b'', v_PollID = ''p1'', v_UserID = ''u1'', v_OptionID = ''o2'',
       v_CreatedAt = 0\<rparr>]"
  by (simp add: sample_vote CreateVote_votes insertable_def vote_pairs_def new_vote_def)


section \<open>The daily quota\<close>

text \<open>
  C1. VoteOnPoll reads the user's daily count and compares it with the cap, but no
  operation of the service writes the counter: the repository's
  IncrementUserDailyVoteCount is never called. A vote that succeeds leaves the count
  of the day where it was (here 0), so the cap is never reached; DeleteVote does not
  touch the counter either.
\<close>

theorem successful_vote_leaves_daily_count:
  "user_daily_votes (snd (VoteOnPoll e s pollID req)) = user_daily_votes s
   \<and> user_daily_votes (snd (DeleteVote e s voteID userID)) = user_daily_votes s
   \<and> fst (VoteOnPoll env0 state0 ''p1'' \<lparr>UserID = ''u1'', OptionIndex = 1\<rparr>) = Inr ()
   \<and> daily_count state0 ''u1'' (today env0) = 0
   \<and> daily_count (snd (VoteOnPoll env0 state0 ''p1'' \<lparr>UserID = ''u1'', OptionIndex = 1\<rparr>))
         ''u1'' (today env0) = 0"
  by (simp add: sample_vote daily_count_def)

section \<open>Skipping\<close>

text \<open>
  C10. SkipPoll never looks the poll up. For a poll that does not exist the insert
  into the skips table breaks the foreign key, and the repository wraps that error as
  it is: the caller gets a store error, which the handler answers with 500, where
  VoteOnPoll on the same poll returns NotFound.
\<close>

theorem skip_of_missing_poll_is_store_error:
  "''p9'' \<notin> set (map pr_id (polls state0))
   \<and> SkipPoll env0 state0 ''p9'' \<lparr>k_UserID = ''u1''\<rparr>
       = (Inl (ErrStore ''create skip''), state0)
   \<and> VoteOnPoll env0 state0 ''p9'' \<lparr>UserID = ''u1'', OptionIndex = 0\<rparr>
       = (Inl ErrNotFound, state0)"
proof -
  have "GetPollByID env0 state0 ''p9'' = (Inl ErrNotFound, state0)"
    by (intro GetPollByID_missing) (simp_all add: GetCachedPoll_def)
  then show ?thesis
    by (simp add: SkipPoll_def HasSkipped_def CreateSkip_def VoteOnPoll_def HasVoted_def)
qed

section \<open>Cache invalidation and notification after a mutation\<close>

lemma with_failures_simps [simp]:
  "now_ms (with_failures e fs) = now_ms e"
  "svc_id (with_failures e fs) = svc_id e"
  "row_id (with_failures e fs) = row_id e"
  "today (with_failures e fs) = today e"
  "failing (with_failures e fs) st = (st \<in> set fs \<or> failing e st)"
  by (simp_all add: with_failures_def today_def failing_def)

lemma side_steps:
  assumes "set fs \<subseteq> {CacheDelStats, Publish}"
  shows "DbHasVoted \<notin> set fs" "DbGetPoll \<notin> set fs" "DbGetOptions \<notin> set fs"
    "DbGetTags \<notin> set fs" "DbDailyCount \<notin> set fs" "DbInsertVote \<notin> set fs"
    "DbHasSkipped \<notin> set fs" "DbInsertSkip \<notin> set fs" "DbGetVote \<notin> set fs"
    "DbVerifyOption \<notin> set fs" "DbUpdateVote \<notin> set fs" "DbDeleteVote \<notin> set fs"
    "CacheGetPoll \<notin> set fs" "CacheSetPoll \<notin> set fs"
  using assms by auto

lemma side_cache:
  assumes "set fs \<subseteq> {CacheDelStats, Publish}"
  shows "GetCachedPoll (with_failures e fs) s p = GetCachedPoll e s p"
    and "SetCachedPoll (with_failures e fs) s poll = SetCachedPoll e s poll"
  by (simp_all add: GetCachedPoll_def SetCachedPoll_def side_steps [OF assms]
      split: option.splits)

lemma side_GetPollByID:
  assumes "set fs \<subseteq> {CacheDelStats, Publish}"
  shows "GetPollByID (with_failures e fs) s p = GetPollByID e s p"
  by (simp add: GetPollByID_def side_cache [OF assms] side_steps [OF assms]
      split: sum.splits option.splits)

lemma side_CreateVote:
  assumes "set fs \<subseteq> {CacheDelStats, Publish}"
  shows "CreateVote (with_failures e fs) s p u x = CreateVote e s p u x"
  by (simp add: CreateVote_def side_GetPollByID [OF assms] side_cache [OF assms]
      side_steps [OF assms] split: prod.splits sum.splits)

lemma side_VoteOnPoll:
  assumes "set fs \<subseteq> {CacheDelStats, Publish}"
  shows "fst (VoteOnPoll (with_failures e fs) s p req) = fst (VoteOnPoll e s p req)"
  by (simp add: VoteOnPoll_def Let_def split_def HasVoted_def GetUserDailyVoteCount_def
      side_GetPollByID [OF assms] side_CreateVote [OF assms] side_steps [OF assms]
      split: sum.splits option.splits)

lemma side_UpdateVote_repo:
  assumes "set fs \<subseteq> {CacheDelStats, Publish}"
  shows "fst (UpdateVote_repo (with_failures e fs) s v u x) = fst (UpdateVote_repo e s v u x)"
  by (simp add: UpdateVote_repo_def GetVoteByID_def Let_def side_steps [OF assms]
      split: sum.splits option.splits)

lemma side_UpdateVote:
  assumes "set fs \<subseteq> {CacheDelStats, Publish}"
  shows "fst (UpdateVote (with_failures e fs) s v req) = fst (UpdateVote e s v req)"
  by (simp add: UpdateVote_def Let_def split_def GetVoteByID_def
      side_GetPollByID [OF assms] side_UpdateVote_repo [OF assms] side_steps [OF assms]
      split: sum.splits option.splits)

lemma side_DeleteVote:
  assumes "set fs \<subseteq> {CacheDelStats, Publish}"
  shows "fst (DeleteVote (with_failures e fs) s v u) = fst (DeleteVote e s v u)"
  by (simp add: DeleteVote_def DeleteVote_repo_def Let_def split_def GetVoteByID_def
      side_steps [OF assms] split: sum.splits option.splits)

lemma side_SkipPoll:
  assumes "set fs \<subseteq> {CacheDelStats, Publish}"
  shows "fst (SkipPoll (with_failures e fs) s p req) = fst (SkipPoll e s p req)"
  by (simp add: SkipPoll_def CreateSkip_def HasSkipped_def Let_def split_def
      side_steps [OF assms] split: sum.splits option.splits)

lemma VoteOnPoll_success_form:
  assumes "fst (VoteOnPoll e s p req) = Inr ()"
  shows "\<exists>x. VoteOnPoll e s p req =
           (Inr (),
            snd (publishEvent e
              (snd (InvalidatePollStatsCache e
                 (snd (CreateVote e (snd (GetPollByID e s p)) p (UserID req) x)) p))
              (PollVoted \<lparr>v_ID = svc_id e, v_PollID = p, v_UserID = UserID req,
                           v_OptionID = x, v_CreatedAt = now_ms e\<rparr>)))
         \<and> fst (CreateVote e (snd (GetPollByID e s p)) p (UserID req) x) = Inr ()"
  using assms
  by (auto simp: VoteOnPoll_def Let_def split_def split: sum.splits if_splits)

lemma VoteOnPoll_effects:
  assumes "fst (VoteOnPoll e s p req) = Inr ()"
  shows "stats_cache (snd (VoteOnPoll e s p req)) =
           (if failing e CacheDelStats then stats_cache s else (stats_cache s)(p := None))"
    and "published (snd (VoteOnPoll e s p req)) =
           (if failing e Publish then published s
            else published s @
              [PollVoted ((last (votes (snd (VoteOnPoll e s p req))))\<lparr>v_ID := svc_id e\<rparr>)])"
proof -
  obtain x where eq: "VoteOnPoll e s p req =
           (Inr (),
            snd (publishEvent e
              (snd (InvalidatePollStatsCache e
                 (snd (CreateVote e (snd (GetPollByID e s p)) p (UserID req) x)) p))
              (PollVoted \<lparr>v_ID = svc_id e, v_PollID = p, v_UserID = UserID req,
                           v_OptionID = x, v_CreatedAt = now_ms e\<rparr>)))"
    and ok: "fst (CreateVote e (snd (GetPollByID e s p)) p (UserID req) x) = Inr ()"
    using VoteOnPoll_success_form [OF assms] by blast
  have ins: "insertable e (snd (GetPollByID e s p)) p (UserID req) x"
    using ok by (simp add: CreateVote_result)
  show "stats_cache (snd (VoteOnPoll e s p req)) =
           (if failing e CacheDelStats then stats_cache s else (stats_cache s)(p := None))"
    unfolding eq by simp
  show "published (snd (VoteOnPoll e s p req)) =
           (if failing e Publish then published s
            else published s @
              [PollVoted ((last (votes (snd (VoteOnPoll e s p req))))\<lparr>v_ID := svc_id e\<rparr>)])"
    unfolding eq using ins by (simp add: CreateVote_votes new_vote_def)
qed

lemma GetVoteByID_found:
  "GetVoteByID e s v = Inr vote \<Longrightarrow> v_ID vote = v \<and> vote \<in> set (votes s)"
  by (auto simp: GetVoteByID_def find_Some_iff split: if_splits option.splits)

lemma GetVoteByID_after_lookup:
  "GetVoteByID e (snd (GetPollByID e' s p)) v = GetVoteByID e s v"
  by (simp add: GetVoteByID_def)

lemma UpdateVote_repo_effects:
  assumes "fst (UpdateVote_repo e s v u x) = Inr ()" "GetVoteByID e s v = Inr vote"
  shows "stats_cache (snd (UpdateVote_repo e s v u x)) =
           (if failing e CacheDelStats then stats_cache s
            else (stats_cache s)(v_PollID vote := None))"
  using assms
  by (auto simp: UpdateVote_repo_def Let_def split: sum.splits if_splits)

lemma UpdateVote_effects:
  assumes ok: "fst (UpdateVote e s v (Some req)) = Inr ()" and g: "GetVoteByID e s v = Inr vote"
  shows "stats_cache (snd (UpdateVote e s v (Some req))) =
           (if failing e CacheDelStats then stats_cache s
            else (stats_cache s)(v_PollID vote := None))"
    and "\<exists>x. published (snd (UpdateVote e s v (Some req))) =
           (if failing e Publish then published s
            else published s @ [PollVoteUpdated (vote\<lparr>v_OptionID := x\<rparr>)])"
proof -
  let ?s1 = "snd (GetPollByID e s (v_PollID vote))"
  have id: "v_ID vote = v" using GetVoteByID_found [OF g] by simp
  have g1: "GetVoteByID e ?s1 v = Inr vote"
    using g by (simp add: GetVoteByID_after_lookup)
  have u: "v_UserID vote = u_UserID req"
    using ok g by (auto simp: UpdateVote_def split: if_splits)
  obtain poll where poll: "fst (GetPollByID e s (v_PollID vote)) = Inr poll"
    using ok g u by (auto simp: UpdateVote_def split_def split: sum.splits)
  let ?x = "o_ID (p_Options poll ! nat (u_OptionIndex req))"
  have eq: "UpdateVote e s v (Some req) =
      (Inr (), snd (publishEvent e (snd (UpdateVote_repo e ?s1 v (u_UserID req) ?x))
         (PollVoteUpdated \<lparr>v_ID = v, v_PollID = v_PollID vote, v_UserID = u_UserID req,
                           v_OptionID = ?x, v_CreatedAt = v_CreatedAt vote\<rparr>)))"
    and rok: "fst (UpdateVote_repo e ?s1 v (u_UserID req) ?x) = Inr ()"
    using ok g u poll
    by (auto simp: UpdateVote_def Let_def split_def split: sum.splits if_splits)
  have rec: "\<lparr>v_ID = v, v_PollID = v_PollID vote, v_UserID = u_UserID req,
             v_OptionID = ?x, v_CreatedAt = v_CreatedAt vote\<rparr> = vote\<lparr>v_OptionID := ?x\<rparr>"
    using id u by simp
  show "stats_cache (snd (UpdateVote e s v (Some req))) =
           (if failing e CacheDelStats then stats_cache s
            else (stats_cache s)(v_PollID vote := None))"
    unfolding eq using UpdateVote_repo_effects [OF rok g1] by simp
  show "\<exists>x. published (snd (UpdateVote e s v (Some req))) =
           (if failing e Publish then published s
            else published s @ [PollVoteUpdated (vote\<lparr>v_OptionID := x\<rparr>)])"
    unfolding eq rec by (intro exI [of _ ?x]) simp
qed

lemma SkipPoll_effects:
  assumes "fst (SkipPoll e s p req) = Inr ()"
  shows "published (snd (SkipPoll e s p req)) =
           (if failing e Publish then published s
            else published s @
              [PollSkipped \<lparr>s_ID = svc_id e, s_PollID = p, s_UserID = k_UserID req,
                            s_CreatedAt = now_ms e\<rparr>])"
    and "skips (snd (SkipPoll e s p req)) =
           skips s @ [\<lparr>s_ID = row_id e, s_PollID = p, s_UserID = k_UserID req,
                        s_CreatedAt = now_ms e\<rparr>]"
  using assms
  by (auto simp: SkipPoll_def CreateSkip_def Let_def split_def split: sum.splits if_splits)

lemma DeleteVote_effects:
  assumes "fst (DeleteVote e s v u) = Inr ()" "GetVoteByID e s v = Inr vote"
  shows "published (snd (DeleteVote e s v u)) =
           (if failing e Publish then published s else published s @ [PollVoteDeleted vote])"
  using assms
  by (auto simp: DeleteVote_def Let_def split_def split: sum.splits if_splits)

text \<open>
  C5 (amended). The results of VoteOnPoll, UpdateVote, DeleteVote and SkipPoll are the
  same whether or not the cache invalidation and the publication fail. A successful
  vote and a successful vote update remove the poll's statistics entry from the cache
  (when the removal itself succeeds); a successful skip leaves the cache as it is.
  Each of the four, when it succeeds, publishes its fact (when the broker accepts it):
  the vote as recorded under the service's own identifier, the vote with its new
  option, the skip, the deleted vote.
\<close>

theorem mutation_side_effects_best_effort:
  assumes side: "set fs \<subseteq> {CacheDelStats, Publish}"
  shows "fst (VoteOnPoll (with_failures e fs) s pollID req) = fst (VoteOnPoll e s pollID req)
   \<and> fst (UpdateVote (with_failures e fs) s voteID ureq) = fst (UpdateVote e s voteID ureq)
   \<and> fst (DeleteVote (with_failures e fs) s voteID userID) = fst (DeleteVote e s voteID userID)
   \<and> fst (SkipPoll (with_failures e fs) s pollID sreq) = fst (SkipPoll e s pollID sreq)
   \<and> (fst (VoteOnPoll e s pollID req) = Inr () \<longrightarrow>
        (\<not> failing e CacheDelStats \<longrightarrow>
           stats_cache (snd (VoteOnPoll e s pollID req)) pollID = None)
        \<and> (\<not> failing e Publish \<longrightarrow>
           published (snd (VoteOnPoll e s pollID req)) =
             published s @
               [PollVoted ((last (votes (snd (VoteOnPoll e s pollID req))))
                              \<lparr>v_ID := svc_id e\<rparr>)]))
   \<and> (fst (UpdateVote e s voteID (Some r)) = Inr () \<and> GetVoteByID e s voteID = Inr vote \<longrightarrow>
        (\<not> failing e CacheDelStats \<longrightarrow>
           stats_cache (snd (UpdateVote e s voteID (Some r))) (v_PollID vote) = None)
        \<and> (\<not> failing e Publish \<longrightarrow>
           (\<exists>x. published (snd (UpdateVote e s voteID (Some r))) =
                  published s @ [PollVoteUpdated (vote\<lparr>v_OptionID := x\<rparr>)])))
   \<and> (fst (SkipPoll e s pollID sreq) = Inr () \<longrightarrow>
        stats_cache (snd (SkipPoll e s pollID sreq)) = stats_cache s
        \<and> (\<not> failing e Publish \<longrightarrow>
           published (snd (SkipPoll e s pollID sreq)) =
             published s @
               [PollSkipped \<lparr>s_ID = svc_id e, s_PollID = pollID, s_UserID = k_UserID sreq,
                             s_CreatedAt = now_ms e\<rparr>]))
   \<and> (fst (DeleteVote e s voteID userID) = Inr () \<and> GetVoteByID e s voteID = Inr vote \<longrightarrow>
        (\<not> failing e Publish \<longrightarrow>
           published (snd (DeleteVote e s voteID userID)) =
             published s @ [PollVoteDeleted vote]))"
proof (intro conjI impI)
  show "fst (VoteOnPoll (with_failures e fs) s pollID req) = fst (VoteOnPoll e s pollID req)"
    by (rule side_VoteOnPoll [OF side])
  show "fst (UpdateVote (with_failures e fs) s voteID ureq) = fst (UpdateVote e s voteID ureq)"
    by (rule side_UpdateVote [OF side])
  show "fst (DeleteVote (with_failures e fs) s voteID userID) = fst (DeleteVote e s voteID userID)"
    by (rule side_DeleteVote [OF side])
  show "fst (SkipPoll (with_failures e fs) s pollID sreq) = fst (SkipPoll e s pollID sreq)"
    by (rule side_SkipPoll [OF side])
next
  assume ok: "fst (VoteOnPoll e s pollID req) = Inr ()"
  { assume "\<not> failing e CacheDelStats"
    then show "stats_cache (snd (VoteOnPoll e s pollID req)) pollID = None"
      by (simp add: VoteOnPoll_effects(1) [OF ok]) }
  { assume "\<not> failing e Publish"
    then show "published (snd (VoteOnPoll e s pollID req)) =
             published s @
               [PollVoted ((last (votes (snd (VoteOnPoll e s pollID req))))
                              \<lparr>v_ID := svc_id e\<rparr>)]"
      using VoteOnPoll_effects(2) [OF ok] by simp }
next
  assume a: "fst (UpdateVote e s voteID (Some r)) = Inr () \<and> GetVoteByID e s voteID = Inr vote"
  then have ok: "fst (UpdateVote e s voteID (Some r)) = Inr ()"
    and g: "GetVoteByID e s voteID = Inr vote" by simp_all
  { assume "\<not> failing e CacheDelStats"
    then show "stats_cache (snd (UpdateVote e s voteID (Some r))) (v_PollID vote) = None"
      by (simp add: UpdateVote_effects(1) [OF ok g]) }
  { assume "\<not> failing e Publish"
    then show "\<exists>x. published (snd (UpdateVote e s voteID (Some r))) =
                  published s @ [PollVoteUpdated (vote\<lparr>v_OptionID := x\<rparr>)]"
      using UpdateVote_effects(2) [OF ok g] by simp }
next
  assume ok: "fst (SkipPoll e s pollID sreq) = Inr ()"
  show "stats_cache (snd (SkipPoll e s pollID sreq)) = stats_cache s"
    by simp
  { assume "\<not> failing e Publish"
    then show "published (snd (SkipPoll e s pollID sreq)) =
             published s @
               [PollSkipped \<lparr>s_ID = svc_id e, s_PollID = pollID, s_UserID = k_UserID sreq,
                             s_CreatedAt = now_ms e\<rparr>]"
      by (simp add: SkipPoll_effects(1) [OF ok]) }
next
  assume a: "fst (DeleteVote e s voteID userID) = Inr () \<and> GetVoteByID e s voteID = Inr vote"
  assume "\<not> failing e Publish"
  then show "published (snd (DeleteVote e s voteID userID)) =
             published s @ [PollVoteDeleted vote]"
    using a DeleteVote_effects [of e s voteID userID vote] by simp
qed

lemma voted0_simps [simp]:
  "users voted0 = [''u1'', ''u2'']"
  "map pr_id (polls voted0) = [''p1'']"
  "map or_id (poll_options voted0) = [''o1'', ''o2'']"
  "votes voted0 = [vote0]" "skips voted0 = []"
  "user_daily_votes voted0 = Map.empty" "poll_cache voted0 = Map.empty"
  "stats_cache voted0 = Map.empty" "published voted0 = []"
  by (simp_all add: voted0_def)

lemma sample_GetVoteByID: "GetVoteByID env0 voted0 ''v1'' = Inr vote0"
  by (simp add: GetVoteByID_def vote0_def)

lemma sample_skip: "fst (SkipPoll env0 state0 ''p1'' \<lparr>k_UserID = ''u1''\<rparr>) = Inr ()"
  by (simp add: SkipPoll_def HasSkipped_def CreateSkip_def)

lemma sample_delete: "fst (DeleteVote env0 voted0 ''v1'' ''u1'') = Inr ()"
  by (simp add: DeleteVote_def DeleteVote_repo_def sample_GetVoteByID) (simp add: vote0_def)

lemma sample_update:
  "fst (UpdateVote env0 voted0 ''v1'' (Some \<lparr>u_UserID = ''u1'', u_OptionIndex = 1\<rparr>)) = Inr ()"
proof -
  have g: "GetPollByID env0 voted0 ''p1'' =
     (Inr poll0, voted0\<lparr>poll_cache := [''p1'' \<mapsto> (poll0, 86400000)]\<rparr>)"
    using GetPollByID_state0 [where vs = "[vote0]" and d = Map.empty]
    by (simp add: voted0_def state0_def)
  have r: "fst (UpdateVote_repo env0 (voted0\<lparr>poll_cache := [''p1'' \<mapsto> (poll0, 86400000)]\<rparr>)
                  ''v1'' ''u1'' ''o2'') = Inr ()"
    by (simp add: UpdateVote_repo_def GetVoteByID_def vote0_def state0_def voted0_def)
  have v: "v_UserID vote0 = ''u1''" "v_PollID vote0 = ''p1''"
    "length (p_Options poll0) = 2" "o_ID (p_Options poll0 ! Suc 0) = ''o2''"
    by (simp_all add: vote0_def poll0_def)
  show ?thesis
    using r by (simp add: UpdateVote_def sample_GetVoteByID v g Let_def split_def
        split: sum.splits)
qed

text \<open>The theorem at the sample data, with both side channels failing and with none.\<close>

theorem mutation_side_effects_best_effort_witness:
  "fst (VoteOnPoll (with_failures env0 [CacheDelStats, Publish]) state0 ''p1''
          \<lparr>UserID = ''u1'', OptionIndex = 1\<rparr>) = Inr ()
   \<and> stats_cache (snd (VoteOnPoll env0 state0 ''p1'' \<lparr>UserID = ''u1'', OptionIndex = 1\<rparr>))
         ''p1'' = None
   \<and> published (snd (VoteOnPoll env0 state0 ''p1'' \<lparr>UserID = ''u1'', OptionIndex = 1\<rparr>))
       = [PollVoted \<lparr>v_ID = ''id-a'', v_PollID = ''p1'', v_UserID = ''u1'',
                      v_OptionID = ''o2'', v_CreatedAt = 0\<rparr>]
   \<and> fst (UpdateVote (with_failures env0 [CacheDelStats, Publish]) voted0 ''v1''
            (Some \<lparr>u_UserID = ''u1'', u_OptionIndex = 1\<rparr>)) = Inr ()
   \<and> stats_cache (snd (UpdateVote env0 voted0 ''v1''
            (Some \<lparr>u_UserID = ''u1'', u_OptionIndex = 1\<rparr>))) ''p1'' = None
   \<and> fst (SkipPoll (with_failures env0 [CacheDelStats, Publish]) state0 ''p1''
            \<lparr>k_UserID = ''u1''\<rparr>) = Inr ()
   \<and> published (snd (SkipPoll env0 state0 ''p1'' \<lparr>k_UserID = ''u1''\<rparr>))
       = [PollSkipped \<lparr>s_ID = ''id-a'', s_PollID = ''p1'', s_UserID = ''u1'',
                        s_CreatedAt = 0\<rparr>]
   \<and> fst (DeleteVote (with_failures env0 [CacheDelStats, Publish]) voted0 ''v1'' ''u1'') = Inr ()
   \<and> published (snd (DeleteVote env0 voted0 ''v1'' ''u1'')) = [PollVoteDeleted vote0]"
proof -
  have side: "set [CacheDelStats, Publish] \<subseteq> {CacheDelStats, Publish}"
    by simp
  have v: "v_PollID vote0 = ''p1''"
    by (simp add: vote0_def)
  have ok: "fst (VoteOnPoll env0 state0 ''p1'' \<lparr>UserID = ''u1'', OptionIndex = 1\<rparr>) = Inr ()"
    by (simp add: sample_vote)
  show ?thesis
    using mutation_side_effects_best_effort [OF side,
        where e = env0 and s = state0 and pollID = "''p1''"
          and req = "\<lparr>UserID = ''u1'', OptionIndex = 1\<rparr>"
          and sreq = "\<lparr>k_UserID = ''u1''\<rparr>"]
      mutation_side_effects_best_effort [OF side,
        where e = env0 and s = voted0 and voteID = "''v1''" and userID = "''u1''"
          and ureq = "Some \<lparr>u_UserID = ''u1'', u_OptionIndex = 1\<rparr>"
          and r = "\<lparr>u_UserID = ''u1'', u_OptionIndex = 1\<rparr>" and vote = vote0]
      ok sample_skip sample_update sample_delete
    by (simp add: sample_GetVoteByID sample_vote_votes v)
qed

lemma sample_stats_rows:
  "stats_rows (state0\<lparr>stats_cache := c\<rparr>) ''p1'' = st_Votes (stats0 0 0)"
  "stats_rows (voted0\<lparr>stats_cache := c\<rparr>) ''p1'' = st_Votes (stats0 1 0)"
  "stats_rows state0 ''p1'' = st_Votes (stats0 0 0)"
  "stats_rows voted0 ''p1'' = st_Votes (stats0 1 0)"
  by (simp_all add: stats_rows_def state0_def voted0_def vote0_def stats0_def Let_def)

lemma sample_GetPollStats:
  "GetPollStats env0 state0 ''p1'' =
     (Inr (stats0 0 0), state0\<lparr>stats_cache := [''p1'' \<mapsto> (stats0 0 0, 300000)]\<rparr>)"
  "GetPollStats env0 voted0 ''p1'' =
     (Inr (stats0 1 0), voted0\<lparr>stats_cache := [''p1'' \<mapsto> (stats0 1 0, 300000)]\<rparr>)"
  by (simp_all add: GetPollStats_def GetCachedPollStats_def GetPollStats_repo_def
      SetCachedPollStats_def sample_stats_rows) (simp_all add: stats0_def)

text \<open>
  The claim as stated fails for two of the four mutations. A successful skip leaves the
  poll's cached statistics in place. So does a successful vote deletion: the entry
  still counts the deleted vote while the ledger is empty.
\<close>

theorem mutation_invalidates_cache_counterexample:
  "fst (SkipPoll env0 (snd (GetPollStats env0 state0 ''p1'')) ''p1'' \<lparr>k_UserID = ''u1''\<rparr>)
     = Inr ()
   \<and> GetCachedPollStats env0
         (snd (SkipPoll env0 (snd (GetPollStats env0 state0 ''p1'')) ''p1''
                 \<lparr>k_UserID = ''u1''\<rparr>)) ''p1''
       = Inr (stats0 0 0)
   \<and> fst (DeleteVote env0 (snd (GetPollStats env0 voted0 ''p1'')) ''v1'' ''u1'') = Inr ()
   \<and> votes (snd (DeleteVote env0 (snd (GetPollStats env0 voted0 ''p1'')) ''v1'' ''u1'')) = []
   \<and> GetCachedPollStats env0
         (snd (DeleteVote env0 (snd (GetPollStats env0 voted0 ''p1'')) ''v1'' ''u1'')) ''p1''
       = Inr (stats0 1 0)"
proof -
  have skip: "fst (SkipPoll env0 (state0\<lparr>stats_cache := c\<rparr>) ''p1'' \<lparr>k_UserID = ''u1''\<rparr>)
      = Inr ()" for c
    by (simp add: SkipPoll_def HasSkipped_def CreateSkip_def state0_def)
  have del: "fst (DeleteVote env0 (voted0\<lparr>stats_cache := c\<rparr>) ''v1'' ''u1'') = Inr ()"
    "votes (snd (DeleteVote env0 (voted0\<lparr>stats_cache := c\<rparr>) ''v1'' ''u1'')) = []" for c
    by (simp_all add: DeleteVote_def DeleteVote_repo_def GetVoteByID_def vote0_def)
  show ?thesis
    by (simp add: sample_GetPollStats skip del GetCachedPollStats_def)
qed

section \<open>Statistics with and without the cache\<close>

lemma GetPollStats_cold:
  assumes "isl (GetCachedPollStats e s p)" "\<not> failing e DbPollStats"
  shows "GetPollStats e s p =
     (Inr (fresh_stats s p), snd (SetCachedPollStats e s p (fresh_stats s p)))"
  using assms
  by (auto simp: GetPollStats_def GetPollStats_repo_def fresh_stats_def split: sum.splits)

lemma GetPollStats_warm:
  assumes "GetCachedPollStats e s p = Inr st"
  shows "GetPollStats e s p = (Inr st, s)"
  using assms by (simp add: GetPollStats_def)

lemma GetCachedPollStats_after_set:
  assumes "\<not> failing e CacheSetStats" "\<not> failing e' CacheGetStats"
    and "now_ms e' < now_ms e + 300000"
  shows "GetCachedPollStats e' (snd (SetCachedPollStats e s p st)) p = Inr st"
  using assms by (simp add: GetCachedPollStats_def)

text \<open>
  C8 (amended). GetPollStats returns the aggregate computed from the durable store,
  the same value in each of these cases: the cache has no live entry for the poll
  (cold), the cache cannot be read at all (disabled), or the cache holds an entry that
  was computed from the current vote set (warm). A cold read leaves the ledger as it
  is and, when the write to the cache succeeds, the read that follows within the
  entry's five minutes is served from the cache with the same value.
\<close>

theorem GetPollStats_cold_warm_uncached:
  "(isl (GetCachedPollStats e s pollID) \<and> \<not> failing e DbPollStats \<longrightarrow>
       fst (GetPollStats e s pollID) = Inr (fresh_stats s pollID)
     \<and> votes (snd (GetPollStats e s pollID)) = votes s
     \<and> poll_options (snd (GetPollStats e s pollID)) = poll_options s
     \<and> fresh_stats (snd (GetPollStats e s pollID)) pollID = fresh_stats s pollID
     \<and> (\<not> failing e CacheSetStats \<and> \<not> failing e' CacheGetStats
          \<and> now_ms e' < now_ms e + 300000 \<longrightarrow>
          GetCachedPollStats e' (snd (GetPollStats e s pollID)) pollID
            = Inr (fresh_stats s pollID)
          \<and> GetPollStats e' (snd (GetPollStats e s pollID)) pollID
            = (Inr (fresh_stats s pollID), snd (GetPollStats e s pollID))))
   \<and> (GetCachedPollStats e s pollID = Inr (fresh_stats s pollID) \<longrightarrow>
        GetPollStats e s pollID = (Inr (fresh_stats s pollID), s))
   \<and> (failing e CacheGetStats \<and> \<not> failing e DbPollStats \<longrightarrow>
        fst (GetPollStats e s pollID) = Inr (fresh_stats s pollID))"
proof (intro conjI impI)
  assume a: "isl (GetCachedPollStats e s pollID) \<and> \<not> failing e DbPollStats"
  then have cold: "GetPollStats e s pollID =
     (Inr (fresh_stats s pollID), snd (SetCachedPollStats e s pollID (fresh_stats s pollID)))"
    by (intro GetPollStats_cold) simp_all
  show "fst (GetPollStats e s pollID) = Inr (fresh_stats s pollID)"
    by (simp add: cold)
  show "votes (snd (GetPollStats e s pollID)) = votes s"
    "poll_options (snd (GetPollStats e s pollID)) = poll_options s"
    by simp_all
  show "fresh_stats (snd (GetPollStats e s pollID)) pollID = fresh_stats s pollID"
    by (simp add: fresh_stats_def stats_rows_def)
  assume b: "\<not> failing e CacheSetStats \<and> \<not> failing e' CacheGetStats
          \<and> now_ms e' < now_ms e + 300000"
  then show hit: "GetCachedPollStats e' (snd (GetPollStats e s pollID)) pollID
            = Inr (fresh_stats s pollID)"
    unfolding cold by (simp add: GetCachedPollStats_after_set)
  show "GetPollStats e' (snd (GetPollStats e s pollID)) pollID
            = (Inr (fresh_stats s pollID), snd (GetPollStats e s pollID))"
    using hit by (rule GetPollStats_warm)
next
  assume "GetCachedPollStats e s pollID = Inr (fresh_stats s pollID)"
  then show "GetPollStats e s pollID = (Inr (fresh_stats s pollID), s)"
    by (rule GetPollStats_warm)
next
  assume a: "failing e CacheGetStats \<and> \<not> failing e DbPollStats"
  then have "isl (GetCachedPollStats e s pollID)"
    by (simp add: GetCachedPollStats_def)
  then show "fst (GetPollStats e s pollID) = Inr (fresh_stats s pollID)"
    using a by (simp add: GetPollStats_cold)
qed

text \<open>The theorem at the sample ledger with one vote: cold, then warm just before the entry expires, and with the cache disabled.\<close>

theorem GetPollStats_cold_warm_uncached_witness:
  "fst (GetPollStats env0 voted0 ''p1'') = Inr (stats0 1 0)
   \<and> fresh_stats voted0 ''p1'' = stats0 1 0
   \<and> GetPollStats (env0\<lparr>now_ms := 299999\<rparr>) (snd (GetPollStats env0 voted0 ''p1'')) ''p1''
       = (Inr (stats0 1 0), snd (GetPollStats env0 voted0 ''p1''))
   \<and> fst (GetPollStats (with_failures env0 [CacheGetStats, CacheSetStats]) voted0 ''p1'')
       = Inr (stats0 1 0)"
proof -
  have f: "fresh_stats voted0 ''p1'' = stats0 1 0"
    by (simp add: fresh_stats_def sample_stats_rows) (simp add: stats0_def)
  have c: "isl (GetCachedPollStats env0 voted0 ''p1'')"
    by (simp add: GetCachedPollStats_def)
  have e: "\<not> failing (env0\<lparr>now_ms := 299999\<rparr>) CacheGetStats"
    "now_ms (env0\<lparr>now_ms := 299999\<rparr>) = 299999"
    by (simp_all add: failing_def env0_def)
  show ?thesis
    using GetPollStats_cold_warm_uncached
        [where e = env0 and s = voted0 and pollID = "''p1''"
          and e' = "env0\<lparr>now_ms := 299999\<rparr>"]
      GetPollStats_cold_warm_uncached
        [where e = "with_failures env0 [CacheGetStats, CacheSetStats]" and s = voted0
          and pollID = "''p1''"]
    by (simp add: f c e)
qed

lemma sample_stale_vote:
  "votes (snd (VoteOnPoll (with_failures env0 [CacheDelStats])
                 (state0\<lparr>stats_cache := [''p1'' \<mapsto> (stats0 0 0, 300000)]\<rparr>) ''p1''
                 \<lparr>UserID = ''u1'', OptionIndex = 1\<rparr>))
     = [\<lparr>v_ID = ''id-b'', v_PollID = ''p1'', v_UserID = ''u1'', v_OptionID = ''o2'',
         v_CreatedAt = 0\<rparr>]"
  "stats_cache (snd (VoteOnPoll (with_failures env0 [CacheDelStats])
                 (state0\<lparr>stats_cache := [''p1'' \<mapsto> (stats0 0 0, 300000)]\<rparr>) ''p1''
                 \<lparr>UserID = ''u1'', OptionIndex = 1\<rparr>))
     = [''p1'' \<mapsto> (stats0 0 0, 300000)]"
  "poll_options (snd (VoteOnPoll (with_failures env0 [CacheDelStats])
                 (state0\<lparr>stats_cache := [''p1'' \<mapsto> (stats0 0 0, 300000)]\<rparr>) ''p1''
                 \<lparr>UserID = ''u1'', OptionIndex = 1\<rparr>))
     = poll_options state0"
proof -
  let ?e = "with_failures env0 [CacheDelStats]"
  let ?s = "state0\<lparr>stats_cache := [''p1'' \<mapsto> (stats0 0 0, 300000)]\<rparr>"
  let ?r = "\<lparr>UserID = ''u1'', OptionIndex = 1\<rparr>"
  have g: "GetPollByID ?e ?s ''p1'' =
     (Inr poll0, ?s\<lparr>poll_cache := [''p1'' \<mapsto> (poll0, 86400000)]\<rparr>)"
    by (simp add: GetPollByID_def GetCachedPoll_def SetCachedPoll_def options_of_def
        tags_of_def state0_def poll0_def Let_def)
  have x: "o_ID (p_Options poll0 ! Suc 0) = ''o2''" "length (p_Options poll0) = 2"
    by (simp_all add: poll0_def)
  have ins: "insertable ?e ?s ''p1'' ''u1'' ''o2''"
    by (simp add: insertable_def vote_pairs_def)
  have ins1: "insertable ?e (?s\<lparr>poll_cache := [''p1'' \<mapsto> (poll0, 86400000)]\<rparr>)
     ''p1'' ''u1'' ''o2''"
    by (simp add: insertable_def vote_pairs_def)
  have eq: "VoteOnPoll ?e ?s ''p1'' ?r =
      (Inr (),
       snd (publishEvent ?e
         (snd (InvalidatePollStatsCache ?e
            (snd (CreateVote ?e (?s\<lparr>poll_cache := [''p1'' \<mapsto> (poll0, 86400000)]\<rparr>)
                    ''p1'' ''u1'' ''o2'')) ''p1''))
         (PollVoted \<lparr>v_ID = ''id-a'', v_PollID = ''p1'', v_UserID = ''u1'',
                      v_OptionID = ''o2'', v_CreatedAt = 0\<rparr>)))"
    using VoteOnPoll_accept [of ?e "''p1''" ?r ?s, OF _ _ g] ins
    by (simp add: x vote_pairs_def daily_count_def)
  show "votes (snd (VoteOnPoll ?e ?s ''p1'' ?r))
     = [\<lparr>v_ID = ''id-b'', v_PollID = ''p1'', v_UserID = ''u1'', v_OptionID = ''o2'',
         v_CreatedAt = 0\<rparr>]"
    unfolding eq using ins1 by (simp add: CreateVote_votes new_vote_def)
  show "stats_cache (snd (VoteOnPoll ?e ?s ''p1'' ?r)) = [''p1'' \<mapsto> (stats0 0 0, 300000)]"
    unfolding eq by simp
  show "poll_options (snd (VoteOnPoll ?e ?s ''p1'' ?r)) = poll_options state0"
    by simp
qed

text \<open>
  The claim as stated fails on a stale entry. The statistics of the sample poll are
  read (and cached, both options at 0); a vote for coffee succeeds while the cache
  invalidation fails, which the service only logs; the next read is served from the
  cache and still reports 0 for coffee, where the same read with the cache disabled
  reports 1. Without any failure: the statistics are read with one vote for tea, the
  vote is deleted, and the next read still reports 1 for tea where the read with the
  cache disabled reports 0.
\<close>

theorem cache_is_purely_additive_counterexample:
  "fst (GetPollStats env0
          (snd (VoteOnPoll (with_failures env0 [CacheDelStats])
                  (snd (GetPollStats env0 state0 ''p1'')) ''p1''
                  \<lparr>UserID = ''u1'', OptionIndex = 1\<rparr>)) ''p1'')
     = Inr (stats0 0 0)
   \<and> fst (GetPollStats (with_failures env0 [CacheGetStats, CacheSetStats])
          (snd (VoteOnPoll (with_failures env0 [CacheDelStats])
                  (snd (GetPollStats env0 state0 ''p1'')) ''p1''
                  \<lparr>UserID = ''u1'', OptionIndex = 1\<rparr>)) ''p1'')
     = Inr (stats0 0 1)
   \<and> fst (GetPollStats env0
          (snd (DeleteVote env0 (snd (GetPollStats env0 voted0 ''p1'')) ''v1'' ''u1'')) ''p1'')
     = Inr (stats0 1 0)
   \<and> fst (GetPollStats (with_failures env0 [CacheGetStats, CacheSetStats])
          (snd (DeleteVote env0 (snd (GetPollStats env0 voted0 ''p1'')) ''v1'' ''u1'')) ''p1'')
     = Inr (stats0 0 0)"
proof -
  let ?s2 = "snd (VoteOnPoll (with_failures env0 [CacheDelStats])
                 (state0\<lparr>stats_cache := [''p1'' \<mapsto> (stats0 0 0, 300000)]\<rparr>) ''p1''
                 \<lparr>UserID = ''u1'', OptionIndex = 1\<rparr>)"
  let ?d2 = "snd (DeleteVote env0 (voted0\<lparr>stats_cache := [''p1'' \<mapsto> (stats0 1 0, 300000)]\<rparr>)
                 ''v1'' ''u1'')"
  have rows2: "stats_rows ?s2 ''p1'' = st_Votes (stats0 0 1)"
    by (simp add: stats_rows_def sample_stale_vote Let_def) (simp add: state0_def stats0_def)
  have del: "votes ?d2 = []"
    by (simp add: DeleteVote_def DeleteVote_repo_def GetVoteByID_def vote0_def)
  have rowsd: "stats_rows ?d2 ''p1'' = st_Votes (stats0 0 0)"
    by (simp add: stats_rows_def del Let_def) (simp add: voted0_def state0_def stats0_def)
  let ?off = "with_failures env0 [CacheGetStats, CacheSetStats]"
  have off: "isl (GetCachedPollStats ?off s ''p1'')" "\<not> failing ?off DbPollStats" for s
    by (simp_all add: GetCachedPollStats_def)
  have s1: "snd (GetPollStats env0 state0 ''p1'')
      = state0\<lparr>stats_cache := [''p1'' \<mapsto> (stats0 0 0, 300000)]\<rparr>"
    and d1: "snd (GetPollStats env0 voted0 ''p1'')
      = voted0\<lparr>stats_cache := [''p1'' \<mapsto> (stats0 1 0, 300000)]\<rparr>"
    by (simp_all add: sample_GetPollStats)
  have p: "\<lparr>st_PollID = ''p1'', st_Votes = st_Votes (stats0 a b)\<rparr> = stats0 a b" for a b
    by (simp add: stats0_def)
  have warm2: "GetCachedPollStats env0 ?s2 ''p1'' = Inr (stats0 0 0)"
    by (simp add: GetCachedPollStats_def sample_stale_vote)
  have warmd: "GetCachedPollStats env0 ?d2 ''p1'' = Inr (stats0 1 0)"
    by (simp add: GetCachedPollStats_def)
  have f2: "fresh_stats ?s2 ''p1'' = stats0 0 1"
    by (simp add: fresh_stats_def rows2 p)
  have fd: "fresh_stats ?d2 ''p1'' = stats0 0 0"
    by (simp add: fresh_stats_def rowsd p)
  show ?thesis
    unfolding s1 d1
    by (simp add: GetPollStats_warm [OF warm2] GetPollStats_warm [OF warmd]
        GetPollStats_cold [OF off] f2 fd)
qed

end
